theory Spec2Isabelle
  imports Complex_Main
begin

section \<open>Python values and exceptions\<close>

text \<open>
  The pipeline moves Python objects through the cells of pandas tables. A cell is one of
  the values below. A float is a finite number (kept exact, rounding is not modelled), a
  NaN or a signed infinity. \<open>PNA\<close> is \<open>pd.NA\<close>, \<open>PNaT\<close> is \<open>pd.NaT\<close>, \<open>PTimestamp\<close> is a
  parsed date (an opaque instant). A string is a list of characters.
\<close>

datatype pyfloat = Fin rat | NaN | PosInf | NegInf

datatype pyval =
    PNone
  | PNA
  | PNaT
  | PBool bool
  | PInt int
  | PFloat pyfloat
  | PStr string
  | PTimestamp int
  | PList "pyval list"
  | PTuple "pyval list"
  | PDict "(pyval \<times> pyval) list"

datatype pyerror =
    KeyError | IndexError | TypeError | ValueError | AttributeError
  | OverflowError | ZeroDivisionError | SyntaxError | IOError

text \<open>
  Library functions whose full behaviour is outside this repository (parsers, text
  conversions, calendar arithmetic) are taken as parameters, gathered in one record.
  Each field is the behaviour of one library call on one value; an error result is the
  exception that call raises.
\<close>

record pylib =
  str_other :: "pyval \<Rightarrow> string"
    \<comment> \<open>\<open>str(v)\<close> for a value that is not a string\<close>
  str_lower :: "string \<Rightarrow> string"
    \<comment> \<open>\<open>s.lower()\<close>\<close>
  literal_eval :: "string \<Rightarrow> pyerror + pyval"
    \<comment> \<open>\<open>ast.literal_eval(s)\<close>\<close>
  int_of_other :: "pyval \<Rightarrow> pyerror + int"
    \<comment> \<open>\<open>int(v)\<close> for a string or one of pandas' scalars\<close>
  dup_key :: "pyval \<Rightarrow> pyerror + pyval"
    \<comment> \<open>the representative under which pandas' duplicate detection hashes a value;
        \<open>TypeError\<close> for an unhashable value\<close>
  to_numeric :: "pyval \<Rightarrow> pyval"
    \<comment> \<open>one element of \<open>pd.to_numeric(..., errors="coerce")\<close>\<close>
  astype_Int64 :: "pyval \<Rightarrow> pyerror + pyval"
    \<comment> \<open>one element of \<open>.astype("Int64")\<close>\<close>
  to_datetime :: "pyval \<Rightarrow> pyerror + pyval"
    \<comment> \<open>one element of \<open>pd.to_datetime(..., dayfirst=True, format="mixed")\<close>,
        with the default \<open>errors="raise"\<close>\<close>
  astype_boolean :: "pyval \<Rightarrow> pyerror + pyval"
    \<comment> \<open>one element of \<open>.astype("boolean")\<close>\<close>
  isna_list :: "pyval list \<Rightarrow> pyerror + bool"
    \<comment> \<open>the truth value of \<open>pd.isna(xs)\<close> for a list \<open>xs\<close>\<close>
  json_dumps :: "pyval \<Rightarrow> pyerror + string"
    \<comment> \<open>\<open>json.dumps(v)\<close>\<close>
  dt_field :: "string \<Rightarrow> int \<Rightarrow> pyval"
    \<comment> \<open>a calendar field (\<open>day\<close>, \<open>month\<close>, \<open>year\<close>, \<open>week\<close>, \<open>weekday\<close>) of an instant\<close>
  object_column :: "pyval list \<Rightarrow> bool"
    \<comment> \<open>whether pandas keeps a column as Python objects, for a column that holds a value
        other than a number or \<open>None\<close>\<close>
  object_sum :: "pyval list \<Rightarrow> pyerror + pyval"
    \<comment> \<open>the sum of a row of Python objects that holds a value other than a number or a null\<close>

definition py_str :: "'a pylib_scheme \<Rightarrow> pyval \<Rightarrow> string" where
  "py_str lib v = (case v of PStr s \<Rightarrow> s | _ \<Rightarrow> str_other lib v)"

section \<open>Rows and tables\<close>

text \<open>
  A table has named columns and rows; a row holds one cell per column, in column order,
  and carries its index label. Column names are distinct.
\<close>

type_synonym row = "pyval list"

record frame =
  columns :: "string list"
  rows :: "(nat \<times> row) list"

definition cell :: "string list \<Rightarrow> row \<Rightarrow> string \<Rightarrow> pyerror + pyval" where
  "cell cols r c = (case map_of (zip cols r) c of None \<Rightarrow> Inl KeyError | Some v \<Rightarrow> Inr v)"

section \<open>Errors as values\<close>

fun mapE :: "('a \<Rightarrow> pyerror + 'b) \<Rightarrow> 'a list \<Rightarrow> pyerror + 'b list" where
  "mapE f [] = Inr []"
| "mapE f (x # xs) =
    (case f x of Inl e \<Rightarrow> Inl e | Inr y \<Rightarrow>
     (case mapE f xs of Inl e \<Rightarrow> Inl e | Inr ys \<Rightarrow> Inr (y # ys)))"

text \<open>A row filter whose predicate may raise: the mask is computed for the rows in
  order, and the first exception aborts the whole filter.\<close>

fun filterE :: "('a \<Rightarrow> pyerror + bool) \<Rightarrow> 'a list \<Rightarrow> pyerror + 'a list" where
  "filterE p [] = Inr []"
| "filterE p (x # xs) =
    (case p x of Inl e \<Rightarrow> Inl e | Inr b \<Rightarrow>
     (case filterE p xs of Inl e \<Rightarrow> Inl e | Inr ys \<Rightarrow> Inr (if b then x # ys else ys)))"

definition andThen :: "pyerror + 'a \<Rightarrow> ('a \<Rightarrow> pyerror + 'b) \<Rightarrow> pyerror + 'b" where
  "andThen m f = (case m of Inl e \<Rightarrow> Inl e | Inr x \<Rightarrow> f x)"

section \<open>Feature stage: ratio of estimated to accumulated prize\<close>

definition num_of :: "pyval \<Rightarrow> pyfloat option" where
  "num_of v = (case v of
      PInt i \<Rightarrow> Some (Fin (of_int i))
    | PBool b \<Rightarrow> Some (Fin (if b then 1 else 0))
    | PFloat f \<Rightarrow> Some f
    | _ \<Rightarrow> None)"



text \<open>True division of two floats that are not NaN, the divisor not zero.\<close>

fun fdiv :: "pyfloat \<Rightarrow> pyfloat \<Rightarrow> pyfloat" where
  "fdiv (Fin a) (Fin b) = Fin (a / b)"
| "fdiv (Fin a) PosInf = Fin 0"
| "fdiv (Fin a) NegInf = Fin 0"
| "fdiv PosInf (Fin b) = (if 0 < b then PosInf else NegInf)"
| "fdiv NegInf (Fin b) = (if 0 < b then NegInf else PosInf)"
| "fdiv _ _ = NaN"

definition py_truediv :: "pyval \<Rightarrow> pyval \<Rightarrow> pyerror + pyval" where
  "py_truediv x y = (case (num_of x, num_of y) of
      (Some a, Some b) \<Rightarrow>
        (if b = Fin 0 then Inl ZeroDivisionError else Inr (PFloat (fdiv a b)))
    | _ \<Rightarrow> Inl TypeError)"





section \<open>Table operations\<close>

text \<open>\<open>df[c] = df[c].apply(f)\<close> and the element-wise conversions of a column that exists:
  the cells of column \<open>c\<close> are replaced row by row.\<close>

definition upd_row :: "string list \<Rightarrow> string \<Rightarrow> (pyval \<Rightarrow> pyerror + pyval) \<Rightarrow> row \<Rightarrow> pyerror + row" where
  "upd_row cols c f r = mapE (\<lambda>(k, v). if k = c then f v else Inr v) (zip cols r)"

definition apply_col :: "string \<Rightarrow> (pyval \<Rightarrow> pyerror + pyval) \<Rightarrow> frame \<Rightarrow> pyerror + frame" where
  "apply_col c f df =
    (if c \<notin> set (columns df) then Inl KeyError
     else case mapE (\<lambda>(l, r). case upd_row (columns df) c f r of
                      Inl e \<Rightarrow> Inl e | Inr r' \<Rightarrow> Inr (l, r')) (rows df) of
       Inl e \<Rightarrow> Inl e
     | Inr rs \<Rightarrow> Inr (df\<lparr>rows := rs\<rparr>))"

text \<open>\<open>df.drop(columns=cs)\<close> for names \<open>cs\<close> that are all present.\<close>

definition drop_columns :: "string list \<Rightarrow> frame \<Rightarrow> frame" where
  "drop_columns cs df =
    \<lparr>columns = filter (\<lambda>c. c \<notin> set cs) (columns df),
     rows = map (\<lambda>(l, r). (l, map snd (filter (\<lambda>(k, v). k \<notin> set cs) (zip (columns df) r))))
              (rows df)\<rparr>"

text \<open>\<open>df.reset_index(drop=True)\<close>: the rows are relabelled 0, 1, 2, ...\<close>

definition reset_index :: "frame \<Rightarrow> frame" where
  "reset_index df = df\<lparr>rows := zip [0..<length (rows df)] (map snd (rows df))\<rparr>"

section \<open>Cleaning stage\<close>

subsection \<open>Column pruning by lottery type\<close>

definition colunas_drop :: "string \<Rightarrow> string list" where
  "colunas_drop loteria =
    (if loteria \<in> set [''megasena'', ''lotofacil''] then [''timeCoracao'', ''mesSorte'', ''trevos'']
     else if loteria = ''maismilionaria'' then [''timeCoracao'', ''mesSorte'']
     else if loteria = ''timemania'' then [''mesSorte'', ''trevos'']
     else if loteria = ''diadesorte'' then [''timeCoracao'', ''trevos'']
     else [])"

definition drop_colunas_por_loteria :: "'a pylib_scheme \<Rightarrow> frame \<Rightarrow> pyerror + frame" where
  "drop_colunas_por_loteria lib df =
    (if ''loteria'' \<notin> set (columns df) then Inl KeyError
     else case rows df of
       [] \<Rightarrow> Inl IndexError
     | (l, r) # _ \<Rightarrow>
        (case cell (columns df) r ''loteria'' of
           Inl e \<Rightarrow> Inl e
         | Inr v \<Rightarrow>
            (let loteria = str_lower lib (py_str lib v);
                 colunas_existentes = filter (\<lambda>c. c \<in> set (columns df)) (colunas_drop loteria)
             in Inr (drop_columns colunas_existentes df))))"

subsection \<open>Typing\<close>

text \<open>\<open>drop_duplicates(keep="last")\<close> on rows paired with their keys: a row stays when
  no later row has the same key.\<close>

fun drop_duplicates_last :: "('k \<times> 'a) list \<Rightarrow> ('k \<times> 'a) list" where
  "drop_duplicates_last [] = []"
| "drop_duplicates_last ((k, x) # xs) =
    (if k \<in> fst ` set xs then drop_duplicates_last xs else (k, x) # drop_duplicates_last xs)"

definition concurso_keys :: "'a pylib_scheme \<Rightarrow> frame \<Rightarrow> pyerror + pyval list" where
  "concurso_keys lib df =
    (if ''concurso'' \<notin> set (columns df) then Inl KeyError
     else mapE (\<lambda>(l, r). andThen (cell (columns df) r ''concurso'') (dup_key lib)) (rows df))"

definition remover_duplicatas :: "'a pylib_scheme \<Rightarrow> frame \<Rightarrow> pyerror + frame" where
  "remover_duplicatas lib df =
    (case concurso_keys lib df of
       Inl e \<Rightarrow> Inl e
     | Inr keys \<Rightarrow>
        if \<not> distinct keys
        then Inr (df\<lparr>rows := map snd (drop_duplicates_last (zip keys (rows df)))\<rparr>)
        else Inr df)"

definition cols_monetarias :: "string list" where
  "cols_monetarias =
    [''valorArrecadado'', ''valorAcumuladoConcurso_0_5'', ''valorAcumuladoConcursoEspecial'',
     ''valorAcumuladoProximoConcurso'', ''valorEstimadoProximoConcurso'']"

fun apply_present :: "(pyval \<Rightarrow> pyerror + pyval) \<Rightarrow> string list \<Rightarrow> frame \<Rightarrow> pyerror + frame" where
  "apply_present f [] df = Inr df"
| "apply_present f (c # cs) df =
    (if c \<in> set (columns df)
     then andThen (apply_col c f df) (apply_present f cs)
     else apply_present f cs df)"

definition tratar_tipos_e_colunas :: "'a pylib_scheme \<Rightarrow> frame \<Rightarrow> pyerror + frame" where
  "tratar_tipos_e_colunas lib df =
    andThen (remover_duplicatas lib df) (\<lambda>df.
    andThen (apply_col ''concurso'' (\<lambda>v. astype_Int64 lib (to_numeric lib v)) df) (\<lambda>df.
    andThen (apply_col ''data'' (to_datetime lib) df) (\<lambda>df.
    andThen (apply_col ''proximoConcurso'' (to_datetime lib) df) (\<lambda>df.
    andThen (apply_present (\<lambda>v. Inr (to_numeric lib v)) cols_monetarias df) (\<lambda>df.
    apply_present (astype_boolean lib) [''acumulou''] df)))))"

subsection \<open>List normalization\<close>

definition normalizar_lista :: "'a pylib_scheme \<Rightarrow> pyval \<Rightarrow> pyval" where
  "normalizar_lista lib valor =
    (case valor of
       PList xs \<Rightarrow> PList xs
     | PStr s \<Rightarrow> (case literal_eval lib s of Inl e \<Rightarrow> PNone | Inr v \<Rightarrow> v)
     | _ \<Rightarrow> PNone)"

definition aplicar_normalizacao_listas :: "'a pylib_scheme \<Rightarrow> frame \<Rightarrow> pyerror + frame" where
  "aplicar_normalizacao_listas lib df =
    apply_present (\<lambda>v. Inr (normalizar_lista lib v))
      [''dezenas'', ''dezenasOrdemSorteio'', ''premiacoes'', ''localGanhadores''] df"

subsection \<open>Draw-size and range validation\<close>

definition intervalos :: "string \<Rightarrow> (int \<times> int) option" where
  "intervalos = map_of
    [(''megasena'', (1, 60)), (''lotofacil'', (1, 25)), (''timemania'', (1, 80)),
     (''diadesorte'', (1, 31)), (''maismilionaria'', (1, 50))]"

text \<open>Lists and dictionaries cannot be hashed, a tuple can when its elements can.\<close>

fun hashable :: "pyval \<Rightarrow> bool" where
  "hashable (PList xs) = False"
| "hashable (PDict kvs) = False"
| "hashable (PTuple xs) = (\<forall>x \<in> set xs. hashable x)"
| "hashable _ = True"

text \<open>\<open>int(n)\<close>: a float is truncated towards zero; NaN and the infinities raise, as do
  \<open>None\<close> and the containers. Strings and pandas' scalars are read by the library.\<close>

definition py_int :: "'a pylib_scheme \<Rightarrow> pyval \<Rightarrow> pyerror + int" where
  "py_int lib n =
    (case n of
       PInt i \<Rightarrow> Inr i
     | PBool b \<Rightarrow> Inr (if b then 1 else 0)
     | PFloat (Fin q) \<Rightarrow> Inr (if 0 \<le> q then \<lfloor>q\<rfloor> else \<lceil>q\<rceil>)
     | PFloat NaN \<Rightarrow> Inl ValueError
     | PFloat _ \<Rightarrow> Inl OverflowError
     | PNone \<Rightarrow> Inl TypeError
     | PList xs \<Rightarrow> Inl TypeError
     | PTuple xs \<Rightarrow> Inl TypeError
     | PDict kvs \<Rightarrow> Inl TypeError
     | _ \<Rightarrow> int_of_other lib n)"

text \<open>The generator inside \<open>all(...)\<close>: it stops at the first element out of range,
  and an element that cannot be converted raises when it is reached.\<close>

fun all_in_faixa :: "'a pylib_scheme \<Rightarrow> int \<times> int \<Rightarrow> pyval list \<Rightarrow> pyerror + bool" where
  "all_in_faixa lib faixa [] = Inr True"
| "all_in_faixa lib faixa (n # ns) =
    (case py_int lib n of
       Inl e \<Rightarrow> Inl e
     | Inr k \<Rightarrow> if fst faixa \<le> k \<and> k \<le> snd faixa then all_in_faixa lib faixa ns else Inr False)"

definition dezenas_validas :: "'a pylib_scheme \<Rightarrow> pyval \<Rightarrow> pyval \<Rightarrow> pyerror + bool" where
  "dezenas_validas lib lista loteria =
    (if \<not> hashable loteria then Inl TypeError
     else case (case loteria of PStr s \<Rightarrow> intervalos s | _ \<Rightarrow> None) of
       None \<Rightarrow> Inr True
     | Some faixa \<Rightarrow>
        (case lista of
           PList xs \<Rightarrow> (case all_in_faixa lib faixa xs of Inl e \<Rightarrow> Inr False | Inr b \<Rightarrow> Inr b)
         | _ \<Rightarrow> Inr False))"

definition py_len :: "pyval \<Rightarrow> pyerror + nat" where
  "py_len v =
    (case v of
       PStr s \<Rightarrow> Inr (length s)
     | PList xs \<Rightarrow> Inr (length xs)
     | PTuple xs \<Rightarrow> Inr (length xs)
     | PDict kvs \<Rightarrow> Inr (length kvs)
     | _ \<Rightarrow> Inl TypeError)"

definition tamanho_ok :: "string list \<Rightarrow> nat \<Rightarrow> row \<Rightarrow> bool" where
  "tamanho_ok cols expected_count r =
    (case cell cols r ''dezenas'' of Inr (PList xs) \<Rightarrow> length xs = expected_count | _ \<Rightarrow> False)"

definition intervalo_ok :: "'a pylib_scheme \<Rightarrow> string list \<Rightarrow> row \<Rightarrow> pyerror + bool" where
  "intervalo_ok lib cols r =
    andThen (cell cols r ''dezenas'') (\<lambda>lista.
    andThen (cell cols r ''loteria'') (\<lambda>loteria.
    dezenas_validas lib lista loteria))"

text \<open>
  \<open>df.loc[0, "dezenas"]\<close> reads the row labelled 0 (labels are distinct) and raises
  \<open>KeyError\<close> when the column or the label is missing. The second filter is
  \<open>df[df.apply(..., axis=1)]\<close>: on a table without rows pandas' \<open>apply\<close> does not produce
  a boolean mask but an empty float Series (the function returns a scalar on the probe row
  of NaNs), and indexing with it selects no column; when the probe raises (no \<open>loteria\<close>
  column) the table comes back unchanged.
\<close>

definition validar_dezenas :: "'a pylib_scheme \<Rightarrow> frame \<Rightarrow> pyerror + frame" where
  "validar_dezenas lib df =
    (if ''dezenas'' \<notin> set (columns df) then Inl KeyError
     else case map_of (rows df) 0 of
       None \<Rightarrow> Inl KeyError
     | Some r0 \<Rightarrow>
        andThen (andThen (cell (columns df) r0 ''dezenas'') py_len) (\<lambda>expected_count.
          let rows1 = filter (\<lambda>(l, r). tamanho_ok (columns df) expected_count r) (rows df) in
          if rows1 = [] then
            Inr (reset_index \<lparr>columns = (if ''loteria'' \<in> set (columns df) then [] else columns df),
                              rows = []\<rparr>)
          else
            andThen (filterE (\<lambda>(l, r). intervalo_ok lib (columns df) r) rows1) (\<lambda>rows2.
            Inr (reset_index \<lparr>columns = columns df, rows = rows2\<rparr>))))"

definition data_cleaning_etapa1 :: "'a pylib_scheme \<Rightarrow> frame \<Rightarrow> pyerror + frame" where
  "data_cleaning_etapa1 lib df =
    andThen (drop_colunas_por_loteria lib df) (\<lambda>df.
    andThen (tratar_tipos_e_colunas lib df) (\<lambda>df.
    andThen (aplicar_normalizacao_listas lib df) (\<lambda>df.
    validar_dezenas lib df)))"

section \<open>Persistence stage\<close>

subsection \<open>Lists to JSON text\<close>

definition is_list :: "pyerror + pyval \<Rightarrow> bool" where
  "is_list x = (case x of Inr (PList xs) \<Rightarrow> True | _ \<Rightarrow> False)"

text \<open>\<open>df[col].apply(lambda x: isinstance(x, list)).any()\<close>\<close>

definition has_list :: "frame \<Rightarrow> string \<Rightarrow> bool" where
  "has_list df col = list_ex (\<lambda>(l, r). is_list (cell (columns df) r col)) (rows df)"

definition dumps_cell :: "'a pylib_scheme \<Rightarrow> pyval \<Rightarrow> pyerror + pyval" where
  "dumps_cell lib v = (case json_dumps lib v of Inl e \<Rightarrow> Inl e | Inr s \<Rightarrow> Inr (PStr s))"

fun listas_cols :: "'a pylib_scheme \<Rightarrow> string list \<Rightarrow> frame \<Rightarrow> pyerror + frame" where
  "listas_cols lib [] df = Inr df"
| "listas_cols lib (col # cs) df =
    (if has_list df col
     then andThen (apply_col col (dumps_cell lib) df) (listas_cols lib cs)
     else listas_cols lib cs df)"

definition listas_para_json :: "'a pylib_scheme \<Rightarrow> frame \<Rightarrow> pyerror + frame" where
  "listas_para_json lib df = listas_cols lib (columns df) df"

text \<open>A table is well formed when its column names are distinct and every row has one
  cell per column.\<close>

definition wf_frame :: "frame \<Rightarrow> bool" where
  "wf_frame df = (distinct (columns df) \<and> list_all (\<lambda>(l, r). length r = length (columns df)) (rows df))"

subsection \<open>Writing the relation\<close>

text \<open>
  The store is one SQLite file: its relations by name (column names and rows) and the
  number of connections currently open. What the environment does to a write is a
  parameter: no fault, a failure to connect, or a failure inside \<open>to_sql\<close> that leaves the
  relations in some state.
\<close>

type_synonym relation = "string list \<times> row list"

record sqlite =
  tables :: "string \<Rightarrow> relation option"
  connections :: nat

datatype fault = NoFault | ConnectFault | WriteFault "string \<Rightarrow> relation option"

definition to_sql_replace :: "string \<Rightarrow> frame \<Rightarrow> sqlite \<Rightarrow> sqlite" where
  "to_sql_replace name df db = db\<lparr>tables := (tables db)(name \<mapsto> (columns df, map snd (rows df)))\<rparr>"

definition nome_loteria :: "'a pylib_scheme \<Rightarrow> frame \<Rightarrow> pyerror + string" where
  "nome_loteria lib df =
    (if ''loteria'' \<notin> set (columns df) then Inl KeyError
     else case rows df of
       [] \<Rightarrow> Inl IndexError
     | (l, r) # _ \<Rightarrow> andThen (cell (columns df) r ''loteria'') (\<lambda>v. Inr (str_lower lib (py_str lib v))))"

definition salvar_sqlite :: "'a pylib_scheme \<Rightarrow> fault \<Rightarrow> frame \<Rightarrow> sqlite \<Rightarrow> sqlite \<times> (pyerror + unit)" where
  "salvar_sqlite lib env df db =
    (case nome_loteria lib df of
       Inl e \<Rightarrow> (db, Inl e)
     | Inr nome \<Rightarrow>
        (case env of
           ConnectFault \<Rightarrow> (db, Inl IOError)
         | _ \<Rightarrow>
            (let conn = db\<lparr>connections := connections db + 1\<rparr>;
                 (db', res) = (case env of
                     WriteFault ts \<Rightarrow> (conn\<lparr>tables := ts\<rparr>, Inl IOError)
                   | _ \<Rightarrow> (to_sql_replace nome df conn, Inr ()))
             in (db'\<lparr>connections := connections db' - 1\<rparr>, res))))"

definition salvar_no_sqlite_etapa3 :: "'a pylib_scheme \<Rightarrow> fault \<Rightarrow> frame \<Rightarrow> sqlite \<Rightarrow> sqlite \<times> (pyerror + unit)" where
  "salvar_no_sqlite_etapa3 lib env df db =
    (case listas_para_json lib df of
       Inl e \<Rightarrow> (db, Inl e)
     | Inr df_json \<Rightarrow> salvar_sqlite lib env df_json db)"

section \<open>Tables held by reference\<close>

text \<open>
  A caller and a stage can hold the same table object. The store lists the table objects,
  a reference is a position in it. A statement either builds a new table (\<open>df.copy()\<close>,
  \<open>df.drop(...)\<close>, \<open>df[mask]\<close>, \<open>reset_index\<close>) or assigns into the table it was given
  (\<open>df[c] = ...\<close>).
\<close>

type_synonym store = "frame list"

type_synonym outcome = "store \<times> (pyerror + nat)"

definition st_fresh :: "(frame \<Rightarrow> pyerror + frame) \<Rightarrow> store \<Rightarrow> nat \<Rightarrow> outcome" where
  "st_fresh f st r = (case f (st ! r) of Inl e \<Rightarrow> (st, Inl e) | Inr d \<Rightarrow> (st @ [d], Inr (length st)))"

definition st_inplace :: "(frame \<Rightarrow> pyerror + frame) \<Rightarrow> store \<Rightarrow> nat \<Rightarrow> outcome" where
  "st_inplace f st r = (case f (st ! r) of Inl e \<Rightarrow> (st, Inl e) | Inr d \<Rightarrow> (st[r := d], Inr r))"

definition st_then :: "outcome \<Rightarrow> (store \<Rightarrow> nat \<Rightarrow> outcome) \<Rightarrow> outcome" where
  "st_then m k = (case m of (st, Inl e) \<Rightarrow> (st, Inl e) | (st, Inr r) \<Rightarrow> k st r)"

subsection \<open>Cleaning stage on references\<close>

definition remover_duplicatas_st :: "'a pylib_scheme \<Rightarrow> store \<Rightarrow> nat \<Rightarrow> outcome" where
  "remover_duplicatas_st lib st r =
    (case concurso_keys lib (st ! r) of
       Inl e \<Rightarrow> (st, Inl e)
     | Inr keys \<Rightarrow> if \<not> distinct keys then st_fresh (remover_duplicatas lib) st r else (st, Inr r))"

fun apply_present_st :: "(pyval \<Rightarrow> pyerror + pyval) \<Rightarrow> string list \<Rightarrow> store \<Rightarrow> nat \<Rightarrow> outcome" where
  "apply_present_st f [] st r = (st, Inr r)"
| "apply_present_st f (c # cs) st r =
    (if c \<in> set (columns (st ! r))
     then st_then (st_inplace (apply_col c f) st r) (apply_present_st f cs)
     else apply_present_st f cs st r)"

definition tratar_tipos_e_colunas_st :: "'a pylib_scheme \<Rightarrow> store \<Rightarrow> nat \<Rightarrow> outcome" where
  "tratar_tipos_e_colunas_st lib st r =
    st_then (remover_duplicatas_st lib st r) (\<lambda>st r.
    st_then (st_inplace (apply_col ''concurso'' (\<lambda>v. astype_Int64 lib (to_numeric lib v))) st r) (\<lambda>st r.
    st_then (st_inplace (apply_col ''data'' (to_datetime lib)) st r) (\<lambda>st r.
    st_then (st_inplace (apply_col ''proximoConcurso'' (to_datetime lib)) st r) (\<lambda>st r.
    st_then (apply_present_st (\<lambda>v. Inr (to_numeric lib v)) cols_monetarias st r) (\<lambda>st r.
    apply_present_st (astype_boolean lib) [''acumulou''] st r)))))"

definition aplicar_normalizacao_listas_st :: "'a pylib_scheme \<Rightarrow> store \<Rightarrow> nat \<Rightarrow> outcome" where
  "aplicar_normalizacao_listas_st lib st r =
    apply_present_st (\<lambda>v. Inr (normalizar_lista lib v))
      [''dezenas'', ''dezenasOrdemSorteio'', ''premiacoes'', ''localGanhadores''] st r"

definition data_cleaning_etapa1_st :: "'a pylib_scheme \<Rightarrow> store \<Rightarrow> nat \<Rightarrow> outcome" where
  "data_cleaning_etapa1_st lib st r =
    st_then (st_fresh Inr st r) (\<lambda>st r.
    st_then (st_fresh (drop_colunas_por_loteria lib) st r) (\<lambda>st r.
    st_then (tratar_tipos_e_colunas_st lib st r) (\<lambda>st r.
    st_then (aplicar_normalizacao_listas_st lib st r) (\<lambda>st r.
    st_fresh (validar_dezenas lib) st r))))"

subsection \<open>List encoding on references\<close>

fun listas_cols_st :: "'a pylib_scheme \<Rightarrow> string list \<Rightarrow> store \<Rightarrow> nat \<Rightarrow> outcome" where
  "listas_cols_st lib [] st r = (st, Inr r)"
| "listas_cols_st lib (col # cs) st r =
    (if has_list (st ! r) col
     then st_then (st_inplace (apply_col col (dumps_cell lib)) st r) (listas_cols_st lib cs)
     else listas_cols_st lib cs st r)"

definition listas_para_json_st :: "'a pylib_scheme \<Rightarrow> store \<Rightarrow> nat \<Rightarrow> outcome" where
  "listas_para_json_st lib st r =
    st_then (st_fresh Inr st r) (\<lambda>st r. listas_cols_st lib (columns (st ! r)) st r)"

subsection \<open>Feature stage: calendar features\<close>

text \<open>\<open>df[dst] = values\<close>: an existing column is overwritten, a new one is appended.\<close>

definition set_column :: "string \<Rightarrow> pyval list \<Rightarrow> frame \<Rightarrow> frame" where
  "set_column dst vals df =
    (if dst \<in> set (columns df)
     then df\<lparr>rows := map2 (\<lambda>(l, r) v. (l, map2 (\<lambda>k x. if k = dst then v else x) (columns df) r))
                          (rows df) vals\<rparr>
     else \<lparr>columns = columns df @ [dst],
           rows = map2 (\<lambda>(l, r) v. (l, r @ [v])) (rows df) vals\<rparr>)"

text \<open>\<open>df[dst] = df[src].dt.<field>\<close>: the accessor needs a column of dates; a missing
  date gives a missing value.\<close>

definition dt_cell :: "'a pylib_scheme \<Rightarrow> string \<Rightarrow> pyval \<Rightarrow> pyerror + pyval" where
  "dt_cell lib fld v =
    (case v of
       PTimestamp t \<Rightarrow> Inr (dt_field lib fld t)
     | PNaT \<Rightarrow> Inr (if fld = ''week'' then PNA else PFloat NaN)
     | _ \<Rightarrow> Inl AttributeError)"

definition dt_assign :: "'a pylib_scheme \<Rightarrow> string \<Rightarrow> string \<Rightarrow> string \<Rightarrow> frame \<Rightarrow> pyerror + frame" where
  "dt_assign lib src fld dst df =
    (if src \<notin> set (columns df) then Inl KeyError
     else andThen (mapE (\<lambda>(l, r). andThen (cell (columns df) r src) (dt_cell lib fld)) (rows df))
            (\<lambda>vals. Inr (set_column dst vals df)))"

definition criar_features_datas :: "'a pylib_scheme \<Rightarrow> frame \<Rightarrow> pyerror + frame" where
  "criar_features_datas lib df =
    andThen (dt_assign lib ''data'' ''day'' ''data_dia'' df) (\<lambda>df.
    andThen (dt_assign lib ''data'' ''month'' ''data_mes'' df) (\<lambda>df.
    andThen (dt_assign lib ''data'' ''year'' ''data_ano'' df) (\<lambda>df.
    andThen (dt_assign lib ''data'' ''week'' ''semana_ano_concurso'' df) (\<lambda>df.
    andThen (dt_assign lib ''data'' ''weekday'' ''dia_semana_concurso'' df) (\<lambda>df.
    andThen (dt_assign lib ''proximoConcurso'' ''day'' ''proximoConcurso_dia'' df) (\<lambda>df.
    andThen (dt_assign lib ''proximoConcurso'' ''month'' ''proximoConcurso_mes'' df) (\<lambda>df.
    dt_assign lib ''proximoConcurso'' ''year'' ''proximoConcurso_ano'' df)))))))"

text \<open>The same statements on the table the function was given: each assignment writes
  into that table, and the function returns it.\<close>

definition criar_features_datas_st :: "'a pylib_scheme \<Rightarrow> store \<Rightarrow> nat \<Rightarrow> outcome" where
  "criar_features_datas_st lib st r =
    st_then (st_inplace (dt_assign lib ''data'' ''day'' ''data_dia'') st r) (\<lambda>st r.
    st_then (st_inplace (dt_assign lib ''data'' ''month'' ''data_mes'') st r) (\<lambda>st r.
    st_then (st_inplace (dt_assign lib ''data'' ''year'' ''data_ano'') st r) (\<lambda>st r.
    st_then (st_inplace (dt_assign lib ''data'' ''week'' ''semana_ano_concurso'') st r) (\<lambda>st r.
    st_then (st_inplace (dt_assign lib ''data'' ''weekday'' ''dia_semana_concurso'') st r) (\<lambda>st r.
    st_then (st_inplace (dt_assign lib ''proximoConcurso'' ''day'' ''proximoConcurso_dia'') st r) (\<lambda>st r.
    st_then (st_inplace (dt_assign lib ''proximoConcurso'' ''month'' ''proximoConcurso_mes'') st r) (\<lambda>st r.
    st_inplace (dt_assign lib ''proximoConcurso'' ''year'' ''proximoConcurso_ano'') st r)))))))"

section \<open>Feature stage: prize-tier expansion\<close>

text \<open>Python dictionaries with text keys, in insertion order: \<open>d.get(k)\<close> and \<open>d[k] = v\<close>.\<close>

definition dict_get :: "(pyval \<times> pyval) list \<Rightarrow> string \<Rightarrow> pyval" where
  "dict_get kvs k = (case map_of kvs (PStr k) of Some v \<Rightarrow> v | None \<Rightarrow> PNone)"

fun dict_set :: "(string \<times> pyval) list \<Rightarrow> string \<Rightarrow> pyval \<Rightarrow> (string \<times> pyval) list" where
  "dict_set [] k v = [(k, v)]"
| "dict_set ((k', v') # kvs) k v = (if k' = k then (k, v) # kvs else (k', v') # dict_set kvs k v)"

text \<open>The loop of \<open>expandir_premiacoes_loteria\<close>: an item that is not a dictionary has no
  \<open>get\<close>; an item without a tier is skipped.\<close>

fun expandir_itens :: "'a pylib_scheme \<Rightarrow> pyval list \<Rightarrow> (string \<times> pyval) list
    \<Rightarrow> pyerror + (string \<times> pyval) list" where
  "expandir_itens lib [] resultado = Inr resultado"
| "expandir_itens lib (item # itens) resultado =
    (case item of
       PDict kvs \<Rightarrow>
        (let faixa = dict_get kvs ''faixa'' in
         if faixa = PNone then expandir_itens lib itens resultado
         else expandir_itens lib itens
           (dict_set
             (dict_set resultado (''ganhadores_faixa_'' @ py_str lib faixa) (dict_get kvs ''ganhadores''))
             (''valor_faixa_'' @ py_str lib faixa) (dict_get kvs ''valorPremio'')))
     | _ \<Rightarrow> Inl AttributeError)"

definition expandir_premiacoes_loteria :: "'a pylib_scheme \<Rightarrow> pyval \<Rightarrow> pyerror + (string \<times> pyval) list" where
  "expandir_premiacoes_loteria lib prem_list =
    (case prem_list of PList itens \<Rightarrow> expandir_itens lib itens [] | _ \<Rightarrow> Inr [])"

text \<open>The lambda that re-reads \<open>premiacoes\<close>; here \<open>literal_eval\<close> is not guarded.\<close>

definition reler_premiacoes :: "'a pylib_scheme \<Rightarrow> pyval \<Rightarrow> pyerror + pyval" where
  "reler_premiacoes lib x =
    (case x of PStr s \<Rightarrow> literal_eval lib s | PList xs \<Rightarrow> Inr (PList xs) | _ \<Rightarrow> Inr PNone)"

text \<open>\<open>pd.DataFrame(list of dictionaries)\<close>: the columns are the keys in the order they first
  appear, a row without the key holds NaN.\<close>

definition premio_columns :: "(string \<times> pyval) list list \<Rightarrow> string list" where
  "premio_columns dicts = foldl (\<lambda>acc d. acc @ filter (\<lambda>k. k \<notin> set acc) (map fst d)) [] dicts"

definition premio_cell :: "(string \<times> pyval) list \<Rightarrow> string \<Rightarrow> pyval" where
  "premio_cell d k = (case map_of d k of Some v \<Rightarrow> v | None \<Rightarrow> PFloat NaN)"

text \<open>
  A column is numeric (\<open>float64\<close> or \<open>int64\<close>) when its cells are numbers and \<open>None\<close>s with at
  least one number (NaN included) among them; a column of \<open>None\<close>s only stays a column of
  Python objects.
\<close>

definition is_number :: "pyval \<Rightarrow> bool" where
  "is_number v = (case v of PInt i \<Rightarrow> True | PFloat f \<Rightarrow> True | _ \<Rightarrow> False)"

definition infer_object :: "'a pylib_scheme \<Rightarrow> pyval list \<Rightarrow> bool" where
  "infer_object lib cells =
    (if list_all (\<lambda>v. is_number v \<or> v = PNone) cells then \<not> list_ex is_number cells
     else object_column lib cells)"

text \<open>Addition of floats, and of Python numbers (two integers give an integer).\<close>

fun fadd :: "pyfloat \<Rightarrow> pyfloat \<Rightarrow> pyfloat" where
  "fadd (Fin a) (Fin b) = Fin (a + b)"
| "fadd NaN _ = NaN"
| "fadd _ NaN = NaN"
| "fadd PosInf NegInf = NaN"
| "fadd NegInf PosInf = NaN"
| "fadd PosInf _ = PosInf"
| "fadd _ PosInf = PosInf"
| "fadd NegInf _ = NegInf"
| "fadd _ NegInf = NegInf"

definition float_of :: "pyval \<Rightarrow> pyfloat" where
  "float_of v = (case v of PInt i \<Rightarrow> Fin (of_int i) | PFloat f \<Rightarrow> f | _ \<Rightarrow> NaN)"

definition py_add :: "pyval \<Rightarrow> pyval \<Rightarrow> pyval" where
  "py_add x y =
    (case (x, y) of
       (PInt a, PInt b) \<Rightarrow> PInt (a + b)
     | _ \<Rightarrow> PFloat (fadd (float_of x) (float_of y)))"

definition is_nulo :: "pyval \<Rightarrow> bool" where
  "is_nulo v = (v = PNone \<or> v = PFloat NaN)"

text \<open>
  \<open>df[cols].sum(axis=1)\<close> for one row, nulls skipped. In a numeric table the total is a
  float (an integer total is written as the float of the same value); in a table with a
  column of Python objects the nulls are replaced by the integer 0 and the cells are added
  as Python objects.
\<close>

definition soma_numerica :: "pyval list \<Rightarrow> pyval" where
  "soma_numerica cells = PFloat (foldl fadd (Fin 0) (map float_of (filter (\<lambda>v. \<not> is_nulo v) cells)))"

definition soma_objetos :: "'a pylib_scheme \<Rightarrow> pyval list \<Rightarrow> pyerror + pyval" where
  "soma_objetos lib cells =
    (if list_all (\<lambda>v. is_number v \<or> v = PNone) cells
     then Inr (foldl py_add (PInt 0) (map (\<lambda>v. if is_nulo v then PInt 0 else v) cells))
     else object_sum lib cells)"

text \<open>A column of values together with its kind: \<open>True\<close> for Python objects.\<close>

type_synonym series = "bool \<times> pyval list"

definition sum_axis1 :: "'a pylib_scheme \<Rightarrow> pyval list list \<Rightarrow> nat \<Rightarrow> pyerror + series" where
  "sum_axis1 lib cols n =
    (if list_ex (infer_object lib) cols
     then andThen (mapE (\<lambda>i. soma_objetos lib (map (\<lambda>col. col ! i) cols)) [0..<n]) (\<lambda>tot. Inr (True, tot))
     else Inr (False, map (\<lambda>i. soma_numerica (map (\<lambda>col. col ! i) cols)) [0..<n]))"

text \<open>
  Division of two columns. Between numeric columns it is the floating-point division,
  which never raises: a zero divisor gives NaN for a zero dividend and an infinity
  otherwise. When a column holds Python objects the cells are divided one by one by Python,
  where a zero divisor raises.
\<close>

definition np_div :: "pyfloat \<Rightarrow> pyfloat \<Rightarrow> pyfloat" where
  "np_div a b =
    (if b = Fin 0 then
       (case a of
          Fin p \<Rightarrow> if p = 0 then NaN else if 0 < p then PosInf else NegInf
        | _ \<Rightarrow> a)
     else fdiv a b)"

definition series_div :: "series \<Rightarrow> series \<Rightarrow> pyerror + series" where
  "series_div x y =
    (if fst x \<or> fst y
     then andThen (mapE (\<lambda>(a, b). py_truediv a b) (zip (snd x) (snd y))) (\<lambda>q. Inr (True, q))
     else Inr (False, map (\<lambda>(a, b). PFloat (np_div (float_of a) (float_of b))) (zip (snd x) (snd y))))"

definition starts_with :: "string \<Rightarrow> string \<Rightarrow> bool" where
  "starts_with p s = (take (length p) s = p)"

definition column_cells :: "frame \<Rightarrow> nat \<Rightarrow> pyval list" where
  "column_cells df j = map (\<lambda>(l, r). r ! j) (rows df)"

definition columns_with_prefix :: "string \<Rightarrow> frame \<Rightarrow> pyval list list" where
  "columns_with_prefix p df =
    map (column_cells df) (filter (\<lambda>j. starts_with p (columns df ! j)) [0..<length (columns df)])"

text \<open>
  \<open>aplicar_expansao_premiacoes\<close>. The table has the default index, so that \<open>pd.concat\<close>
  puts the tier columns beside the rows they come from.
\<close>

definition aplicar_expansao_premiacoes :: "'a pylib_scheme \<Rightarrow> frame \<Rightarrow> pyerror + frame" where
  "aplicar_expansao_premiacoes lib df =
    andThen (apply_col ''premiacoes'' (reler_premiacoes lib) df) (\<lambda>df.
    andThen (mapE (\<lambda>(l, r). andThen (cell (columns df) r ''premiacoes'')
                                (expandir_premiacoes_loteria lib)) (rows df)) (\<lambda>premios_expandido.
    let premios_cols = premio_columns premios_expandido;
        df = \<lparr>columns = columns df @ premios_cols,
              rows = map2 (\<lambda>(l, r) d. (l, r @ map (premio_cell d) premios_cols))
                       (rows df) premios_expandido\<rparr>;
        cols_ganhadores = columns_with_prefix ''ganhadores_faixa_'' df;
        cols_valores = columns_with_prefix ''valor_faixa_'' df;
        n = length (rows df)
    in
    andThen (sum_axis1 lib cols_ganhadores n) (\<lambda>total_ganhadores.
    andThen (sum_axis1 lib cols_valores n) (\<lambda>total_pago_premios.
    andThen (series_div total_pago_premios total_ganhadores) (\<lambda>media_premio_real.
    Inr (set_column ''media_premio_real'' (snd media_premio_real)
          (set_column ''total_pago_premios'' (snd total_pago_premios)
            (set_column ''total_ganhadores'' (snd total_ganhadores) df))))))))"

section \<open>A reference instance of the library\<close>

text \<open>
  The examples below are evaluated with the following instance. It covers plain decimal
  digit strings, dates written \<open>dd/mm/yyyy\<close> with a day up to 28 (an instant is kept as the
  number \<open>10000 * year + 100 * month + day\<close>), ASCII letters and JSON text of nulls, booleans,
  natural numbers, plain strings and lists. The theorems hold for every instance; the
  examples use values on which this one agrees with Python and pandas.
\<close>

fun dec_digits :: "string \<Rightarrow> nat \<Rightarrow> nat option" where
  "dec_digits [] acc = Some acc"
| "dec_digits (c # cs) acc =
    (if 48 \<le> (of_char c :: nat) \<and> (of_char c :: nat) \<le> 57
     then dec_digits cs (10 * acc + (of_char c - 48)) else None)"

definition parse_nat :: "string \<Rightarrow> nat option" where
  "parse_nat s = (if s = [] then None else dec_digits s 0)"

definition ascii_lower :: "char \<Rightarrow> char" where
  "ascii_lower c =
    (case map_of (zip ''ABCDEFGHIJKLMNOPQRSTUVWXYZ'' ''abcdefghijklmnopqrstuvwxyz'') c of
       Some l \<Rightarrow> l
     | None \<Rightarrow> c)"

fun show_nat :: "nat \<Rightarrow> string" where
  "show_nat n =
    (if n < 10 then [''0123456789'' ! n] else show_nat (n div 10) @ [''0123456789'' ! (n mod 10)])"

declare show_nat.simps [simp del]

fun join_comma :: "string list \<Rightarrow> string" where
  "join_comma [] = []"
| "join_comma [s] = s"
| "join_comma (s # ss) = s @ '', '' @ join_comma ss"

fun json0 :: "pyval \<Rightarrow> string option" where
  "json0 PNone = Some ''null''"
| "json0 (PFloat NaN) = Some ''NaN''"
| "json0 (PBool b) = Some (if b then ''true'' else ''false'')"
| "json0 (PInt i) = (if 0 \<le> i then Some (show_nat (nat i)) else Some (CHR ''-'' # show_nat (nat (- i))))"
| "json0 (PStr s) =
    (if \<forall>c \<in> set s. 32 \<le> (of_char c :: nat) \<and> (of_char c :: nat) < 127 \<and> c \<noteq> CHR 0x22 \<and> c \<noteq> CHR 0x5C
     then Some ([CHR 0x22] @ s @ [CHR 0x22]) else None)"
| "json0 (PList xs) =
    (if \<forall>x \<in> set xs. json0 x \<noteq> None
     then Some (''['' @ join_comma (map (\<lambda>x. the (json0 x)) xs) @ '']'') else None)"
| "json0 _ = None"

definition parse_date0 :: "string \<Rightarrow> int option" where
  "parse_date0 s =
    (if length s = 10 \<and> s ! 2 = CHR ''/'' \<and> s ! 5 = CHR ''/'' then
       (case (parse_nat (take 2 s), parse_nat (take 2 (drop 3 s)), parse_nat (drop 6 s)) of
          (Some d, Some m, Some y) \<Rightarrow>
            if 1 \<le> d \<and> d \<le> 28 \<and> 1 \<le> m \<and> m \<le> 12 \<and> 1 \<le> y
            then Some (10000 * int y + 100 * int m + int d) else None
        | _ \<Rightarrow> None)
     else None)"

text \<open>Calendar arithmetic on the proleptic Gregorian calendar: days since 1970-01-01,
  the weekday (Monday is 0) and the ISO week number.\<close>

definition days_from_civil :: "int \<Rightarrow> int \<Rightarrow> int \<Rightarrow> int" where
  "days_from_civil y m d =
    (let y' = (if m \<le> 2 then y - 1 else y);
         era = y' div 400;
         yoe = y' - era * 400;
         doy = (153 * (if m > 2 then m - 3 else m + 9) + 2) div 5 + d - 1;
         doe = yoe * 365 + yoe div 4 - yoe div 100 + doy
     in era * 146097 + doe - 719468)"

definition weekday0 :: "int \<Rightarrow> int \<Rightarrow> int \<Rightarrow> int" where
  "weekday0 y m d = (days_from_civil y m d + 3) mod 7"

definition weeks_in_year :: "int \<Rightarrow> int" where
  "weeks_in_year y =
    (if (y + y div 4 - y div 100 + y div 400) mod 7 = 4
        \<or> ((y - 1) + (y - 1) div 4 - (y - 1) div 100 + (y - 1) div 400) mod 7 = 3
     then 53 else 52)"

definition iso_week0 :: "int \<Rightarrow> int \<Rightarrow> int \<Rightarrow> int" where
  "iso_week0 y m d =
    (let ordinal = days_from_civil y m d - days_from_civil y 1 1 + 1;
         w = (ordinal - (weekday0 y m d + 1) + 10) div 7
     in if w < 1 then weeks_in_year (y - 1) else if w > weeks_in_year y then 1 else w)"

definition null_like :: "pyval \<Rightarrow> bool" where
  "null_like v = (v = PNone \<or> v = PNA \<or> v = PNaT \<or> v = PFloat NaN)"

definition lib0 :: pylib where
  "lib0 =
    \<lparr>str_other = (\<lambda>v. case v of PNone \<Rightarrow> ''None'' | PInt i \<Rightarrow> the (json0 (PInt i)) | _ \<Rightarrow> ''?''),
     str_lower = map ascii_lower,
     literal_eval = (\<lambda>s.
        if s = ''[]'' then Inr (PList [])
        else if s = ''{}'' then Inr (PDict [])
        else case parse_nat s of Some n \<Rightarrow> Inr (PInt (int n)) | None \<Rightarrow> Inl ValueError),
     int_of_other = (\<lambda>v. case v of
          PStr s \<Rightarrow> (case parse_nat s of Some n \<Rightarrow> Inr (int n) | None \<Rightarrow> Inl ValueError)
        | _ \<Rightarrow> Inl TypeError),
     dup_key = (\<lambda>v.
        if \<not> hashable v then Inl TypeError
        else case v of
          PBool b \<Rightarrow> Inr (PInt (if b then 1 else 0))
        | PFloat (Fin q) \<Rightarrow> Inr (if of_int \<lfloor>q\<rfloor> = q then PInt \<lfloor>q\<rfloor> else v)
        | _ \<Rightarrow> Inr v),
     to_numeric = (\<lambda>v. case v of
          PInt i \<Rightarrow> v | PBool b \<Rightarrow> v | PFloat f \<Rightarrow> v | PNA \<Rightarrow> v
        | PStr s \<Rightarrow> (case parse_nat s of Some n \<Rightarrow> PInt (int n) | None \<Rightarrow> PFloat NaN)
        | _ \<Rightarrow> PFloat NaN),
     astype_Int64 = (\<lambda>v. case v of
          PInt i \<Rightarrow> Inr v
        | PBool b \<Rightarrow> Inr (PInt (if b then 1 else 0))
        | PFloat (Fin q) \<Rightarrow> (if of_int \<lfloor>q\<rfloor> = q then Inr (PInt \<lfloor>q\<rfloor>) else Inl TypeError)
        | _ \<Rightarrow> (if null_like v then Inr PNA else Inl TypeError)),
     to_datetime = (\<lambda>v. case v of
          PTimestamp t \<Rightarrow> Inr v
        | PStr s \<Rightarrow> (case parse_date0 s of Some t \<Rightarrow> Inr (PTimestamp t) | None \<Rightarrow> Inl ValueError)
        | _ \<Rightarrow> (if null_like v then Inr PNaT else Inl TypeError)),
     astype_boolean = (\<lambda>v. case v of
          PBool b \<Rightarrow> Inr v
        | _ \<Rightarrow> (if null_like v then Inr PNA else Inl TypeError)),
     isna_list = (\<lambda>xs. case xs of [] \<Rightarrow> Inr False | [x] \<Rightarrow> Inr (null_like x) | _ \<Rightarrow> Inl ValueError),
     json_dumps = (\<lambda>v. case json0 v of Some s \<Rightarrow> Inr s | None \<Rightarrow> Inl TypeError),
     dt_field = (\<lambda>f t.
        if f = ''day'' then PInt (t mod 100)
        else if f = ''month'' then PInt (t div 100 mod 100)
        else if f = ''year'' then PInt (t div 10000)
        else if f = ''weekday'' then PInt (weekday0 (t div 10000) (t div 100 mod 100) (t mod 100))
        else PInt (iso_week0 (t div 10000) (t div 100 mod 100) (t mod 100))),
     object_column = (\<lambda>cells. True),
     object_sum = (\<lambda>cells. Inl TypeError)\<rparr>"

section \<open>Example tables\<close>

definition ex_cols :: "string list" where
  "ex_cols = [''loteria'', ''concurso'', ''data'', ''proximoConcurso'', ''dezenas'', ''trevos'']"


definition ex_out :: frame where
  "ex_out = \<lparr>columns = [''loteria'', ''concurso'', ''data'', ''proximoConcurso'', ''dezenas''],
     rows = [(0, [PStr ''megasena'', PInt 1, PTimestamp 20200102, PNaT,
                  PList [PStr ''10'', PStr ''22'', PStr ''35'', PStr ''41'', PStr ''50'', PStr ''58'']])]\<rparr>"

text \<open>Two tables without rows, with and without the \<open>loteria\<close> column.\<close>

definition ex_empty :: frame where
  "ex_empty = \<lparr>columns = ex_cols, rows = []\<rparr>"

definition ex_empty_no_loteria :: frame where
  "ex_empty_no_loteria = \<lparr>columns = [''concurso'', ''dezenas''], rows = []\<rparr>"

text \<open>A batch of one valid megasena draw whose \<open>data\<close> cell is \<open>d\<close>.\<close>

definition one_draw :: "pyval \<Rightarrow> frame" where
  "one_draw d = \<lparr>columns = ex_cols,
     rows = [(0, [PStr ''megasena'', PInt 1, d, PNone,
                  PList [PInt 10, PInt 22, PInt 35, PInt 41, PInt 50, PInt 58], PNone])]\<rparr>"

text \<open>Two draws whose draw numbers are the text \<open>7\<close> and the integer 7, and the table
  the stage returns for them.\<close>

definition ex_mixed :: frame where
  "ex_mixed = \<lparr>columns = [''loteria'', ''concurso'', ''data'', ''proximoConcurso'', ''dezenas''],
     rows = [(0, [PStr ''megasena'', PStr ''7'', PNone, PNone,
                  PList [PInt 10, PInt 22, PInt 35, PInt 41, PInt 50, PInt 58]]),
             (1, [PStr ''megasena'', PInt 7, PNone, PNone,
                  PList [PInt 1, PInt 2, PInt 3, PInt 4, PInt 5, PInt 6]])]\<rparr>"

definition ex_mixed_out :: frame where
  "ex_mixed_out = \<lparr>columns = [''loteria'', ''concurso'', ''data'', ''proximoConcurso'', ''dezenas''],
     rows = [(0, [PStr ''megasena'', PInt 7, PNaT, PNaT,
                  PList [PInt 10, PInt 22, PInt 35, PInt 41, PInt 50, PInt 58]]),
             (1, [PStr ''megasena'', PInt 7, PNaT, PNaT,
                  PList [PInt 1, PInt 2, PInt 3, PInt 4, PInt 5, PInt 6]])]\<rparr>"

text \<open>A table with one list-bearing column (\<open>dezenas\<close>, with two kinds of null in it) and
  columns without lists, and its encoding.\<close>

definition ex_json :: frame where
  "ex_json = \<lparr>columns = [''loteria'', ''dezenas'', ''premiacoes'', ''concurso''],
     rows = [(0, [PStr ''megasena'', PList [PInt 1, PInt 22], PNone, PInt 1]),
             (1, [PStr ''megasena'', PNone, PFloat NaN, PInt 2]),
             (2, [PStr ''megasena'', PFloat NaN, PNone, PInt 3])]\<rparr>"

definition ex_json_out :: frame where
  "ex_json_out = \<lparr>columns = [''loteria'', ''dezenas'', ''premiacoes'', ''concurso''],
     rows = [(0, [PStr ''megasena'', PStr ''[1, 22]'', PNone, PInt 1]),
             (1, [PStr ''megasena'', PStr ''null'', PFloat NaN, PInt 2]),
             (2, [PStr ''megasena'', PStr ''NaN'', PNone, PInt 3])]\<rparr>"


text \<open>The cleaned example after the calendar features were added.\<close>

definition ex_feat :: frame where
  "ex_feat = \<lparr>columns = [''loteria'', ''concurso'', ''data'', ''proximoConcurso'', ''dezenas'',
        ''data_dia'', ''data_mes'', ''data_ano'', ''semana_ano_concurso'', ''dia_semana_concurso'',
        ''proximoConcurso_dia'', ''proximoConcurso_mes'', ''proximoConcurso_ano''],
     rows = [(0, [PStr ''megasena'', PInt 1, PTimestamp 20200102, PNaT,
                  PList [PStr ''10'', PStr ''22'', PStr ''35'', PStr ''41'', PStr ''50'', PStr ''58''],
                  PInt 2, PInt 1, PInt 2020, PInt 1, PInt 3, PFloat NaN, PFloat NaN, PFloat NaN])]\<rparr>"



text \<open>Cleaned draws for the prize-tier expansion: one whose only tier has JSON nulls for
  the winner count and the prize, and one with no winner and a prize of 5.\<close>

definition ex_tiers :: "pyval \<Rightarrow> pyval \<Rightarrow> frame" where
  "ex_tiers ganhadores valor = \<lparr>columns = [''loteria'', ''concurso'', ''premiacoes''],
     rows = [(0, [PStr ''megasena'', PInt 1,
                  PList [PDict [(PStr ''faixa'', PInt 1), (PStr ''ganhadores'', ganhadores),
                                (PStr ''valorPremio'', valor)]]])]\<rparr>"

section \<open>Auxiliary notions for the proofs\<close>



text \<open>A cell and its JSON text: a missing cell stays missing, a value becomes the string
  \<open>json.dumps\<close> returns for it.\<close>

definition serialized :: "'a pylib_scheme \<Rightarrow> pyerror + pyval \<Rightarrow> pyerror + pyval \<Rightarrow> bool" where
  "serialized lib a b =
    (case a of Inl e \<Rightarrow> b = Inl e | Inr v \<Rightarrow> \<exists>s. json_dumps lib v = Inr s \<and> b = Inr (PStr s))"

definition encoded :: "'a pylib_scheme \<Rightarrow> bool \<Rightarrow> pyerror + pyval \<Rightarrow> pyerror + pyval \<Rightarrow> bool" where
  "encoded lib b a a' = (if b then serialized lib a a' else a' = a)"

text \<open>A statement sequence \<open>F\<close> on references computes \<open>f\<close> on the table it is given, works
  on tables at or above position \<open>n\<close> only and leaves every table below \<open>n\<close> as it was.\<close>

definition keeps :: "nat \<Rightarrow> store \<Rightarrow> store \<Rightarrow> bool" where
  "keeps n st st' = (length st \<le> length st' \<and> (\<forall>i<n. st' ! i = st ! i))"

definition result_is :: "(frame \<Rightarrow> pyerror + frame) \<Rightarrow> frame \<Rightarrow> nat \<Rightarrow> outcome \<Rightarrow> bool" where
  "result_is f d n out =
    (case snd out of
       Inl e \<Rightarrow> f d = Inl e
     | Inr r' \<Rightarrow> n \<le> r' \<and> r' < length (fst out) \<and> f d = Inr (fst out ! r'))"

definition implements :: "(store \<Rightarrow> nat \<Rightarrow> outcome) \<Rightarrow> (frame \<Rightarrow> pyerror + frame) \<Rightarrow> bool" where
  "implements F f =
    (\<forall>st r n. n \<le> r \<and> r < length st \<longrightarrow>
       keeps n st (fst (F st r)) \<and> result_is f (st ! r) n (F st r))"

text \<open>A statement sequence that writes into the table it is given and returns it.\<close>

definition writes_into :: "(store \<Rightarrow> nat \<Rightarrow> outcome) \<Rightarrow> (frame \<Rightarrow> pyerror + frame) \<Rightarrow> bool" where
  "writes_into F f =
    (\<forall>st r. r < length st \<longrightarrow>
       length (fst (F st r)) = length st \<and>
       (\<forall>i. i \<noteq> r \<longrightarrow> fst (F st r) ! i = st ! i) \<and>
       (case snd (F st r) of
          Inl e \<Rightarrow> f (st ! r) = Inl e
        | Inr r' \<Rightarrow> r' = r \<and> f (st ! r) = Inr (fst (F st r) ! r)))"

definition calendar_cols :: "string list" where
  "calendar_cols =
    [''data_dia'', ''data_mes'', ''data_ano'', ''semana_ano_concurso'', ''dia_semana_concurso'',
     ''proximoConcurso_dia'', ''proximoConcurso_mes'', ''proximoConcurso_ano'']"

section \<open>Properties\<close>

text \<open>The equations that evaluate the stages on a concrete table.\<close>

lemmas eval_defs = data_cleaning_etapa1_def drop_colunas_por_loteria_def tratar_tipos_e_colunas_def
  aplicar_normalizacao_listas_def validar_dezenas_def remover_duplicatas_def concurso_keys_def
  apply_col_def upd_row_def drop_columns_def reset_index_def cell_def andThen_def
  colunas_drop_def cols_monetarias_def normalizar_lista_def intervalos_def py_int_def
  dezenas_validas_def py_len_def tamanho_ok_def intervalo_ok_def py_str_def
  lib0_def parse_nat_def ascii_lower_def parse_date0_def null_like_def Let_def

subsection \<open>Cleaning stage\<close>

lemma andThen_Inr: "andThen m f = Inr y \<longleftrightarrow> (\<exists>x. m = Inr x \<and> f x = Inr y)"
  by (cases m) (auto simp: andThen_def)

lemma mapE_Inr: "mapE f xs = Inr ys \<Longrightarrow> list_all2 (\<lambda>x y. f x = Inr y) xs ys"
  by (induction xs arbitrary: ys) (auto split: sum.splits)



lemma cell_upd_row:
  "upd_row cols c f r = Inr r' \<Longrightarrow>
     cell cols r' c' = (if c' = c then andThen (cell cols r c) f else cell cols r c')"
proof (induction cols arbitrary: r r')
  case Nil
  then show ?case by (simp add: cell_def upd_row_def andThen_def)
next
  case (Cons k ks)
  show ?case
  proof (cases r)
    case Nil
    with Cons.prems show ?thesis by (simp add: cell_def upd_row_def andThen_def)
  next
    case (Cons v vs)
    with Cons.prems obtain v' vs' where r': "r' = v' # vs'"
      and v': "(if k = c then f v else Inr v) = Inr v'"
      and vs': "upd_row ks c f vs = Inr vs'"
      by (auto simp: upd_row_def split: sum.splits)
    from Cons.IH[OF vs'] have ih: "cell ks vs' c' = (if c' = c then andThen (cell ks vs c) f else cell ks vs c')" .
    show ?thesis using ih v' unfolding r' Cons
      by (auto simp: cell_def andThen_def split: if_splits)
  qed
qed


lemma apply_col_Inr:
  assumes "apply_col c f df = Inr df'"
  shows "columns df' = columns df \<and> c \<in> set (columns df) \<and>
    list_all2 (\<lambda>x y. fst y = fst x \<and> upd_row (columns df) c f (snd x) = Inr (snd y)) (rows df) (rows df')"
proof -
  from assms have c: "c \<in> set (columns df)" by (auto simp: apply_col_def split: if_splits)
  with assms obtain rs where rs: "mapE (\<lambda>(l, r). case upd_row (columns df) c f r of
                      Inl e \<Rightarrow> Inl e | Inr r' \<Rightarrow> Inr (l, r')) (rows df) = Inr rs" and df': "df' = df\<lparr>rows := rs\<rparr>"
    by (auto simp: apply_col_def split: sum.splits)
  from mapE_Inr[OF rs] have "list_all2 (\<lambda>x y. fst y = fst x \<and> upd_row (columns df) c f (snd x) = Inr (snd y)) (rows df) rs"
    by (rule list_all2_mono) (auto split: sum.splits)
  with c df' show ?thesis by simp
qed










lemma set_ddl: "set (drop_duplicates_last xs) \<subseteq> set xs"
  by (induction xs rule: drop_duplicates_last.induct) auto

lemma distinct_ddl: "distinct (map fst (drop_duplicates_last xs))"
proof (induction xs rule: drop_duplicates_last.induct)
  case 1 then show ?case by simp
next
  case (2 k x xs)
  then show ?case using set_ddl[of xs] by (auto simp: image_iff) 
qed

lemma ddl_distinct_id: "distinct (map fst xs) \<Longrightarrow> drop_duplicates_last xs = xs"
  by (induction xs rule: drop_duplicates_last.induct) (auto simp: image_iff)

lemma ddl_idem: "drop_duplicates_last (drop_duplicates_last xs) = drop_duplicates_last xs"
  by (rule ddl_distinct_id) (rule distinct_ddl)

lemma remover_duplicatas_Inr:
  assumes "remover_duplicatas lib df = Inr df'"
  shows "columns df' = columns df \<and> set (rows df') \<subseteq> set (rows df)"
proof -
  from assms obtain keys where keys: "concurso_keys lib df = Inr keys"
    by (cases "concurso_keys lib df") (auto simp: remover_duplicatas_def)
  have sub: "set (map snd (drop_duplicates_last (zip keys (rows df)))) \<subseteq> set (rows df)"
    using set_ddl[of "zip keys (rows df)"] by (auto dest: set_zip_rightD)
  show ?thesis
  proof (cases "distinct keys")
    case True
    with assms keys have "df' = df" by (simp add: remover_duplicatas_def)
    then show ?thesis by simp
  next
    case False
    with assms keys have "df' = df\<lparr>rows := map snd (drop_duplicates_last (zip keys (rows df)))\<rparr>"
      by (simp add: remover_duplicatas_def)
    with sub show ?thesis by simp
  qed
qed






























text \<open>
  Claim C8, as amended. For a batch without rows the cleaning stage returns no table: it
  raises \<open>IndexError\<close> when it reads the lottery of the first row, or \<open>KeyError\<close> when the
  batch has no \<open>loteria\<close> column.
\<close>

theorem cleaning_empty_raises:
  "rows df = [] \<Longrightarrow>
   data_cleaning_etapa1 lib df = Inl (if ''loteria'' \<in> set (columns df) then IndexError else KeyError)"
  by (simp add: data_cleaning_etapa1_def drop_colunas_por_loteria_def andThen_def)

theorem cleaning_empty_raises_witness:
  "rows ex_empty_no_loteria = [] \<and> data_cleaning_etapa1 lib0 ex_empty_no_loteria = Inl KeyError"
proof -
  have a: "rows ex_empty_no_loteria = []" by (simp add: ex_empty_no_loteria_def)
  from cleaning_empty_raises [OF a, of lib0] a show ?thesis
    by (simp add: ex_empty_no_loteria_def)
qed

text \<open>The claim as stated fails: an empty batch with all its columns makes the stage raise.\<close>

theorem cleaning_empty_counterexample:
  "rows ex_empty = [] \<and> data_cleaning_etapa1 lib0 ex_empty = Inl IndexError"
  by (simp add: ex_empty_def ex_cols_def data_cleaning_etapa1_def drop_colunas_por_loteria_def andThen_def)

text \<open>
  Claim C2 fails on the code. The date conversion has no coercion: when the library cannot
  parse the \<open>data\<close> cell of a draw (here a batch of one otherwise valid megasena draw),
  the whole stage raises that exception instead of storing a null.
\<close>

theorem cleaning_raises_on_bad_date:
  assumes "to_datetime lib d = Inl e"
    and "str_lower lib ''megasena'' = ''megasena''"
    and "dup_key lib (PInt 1) = Inr k"
    and "astype_Int64 lib (to_numeric lib (PInt 1)) = Inr c"
  shows "data_cleaning_etapa1 lib (one_draw d) = Inl e"
  using assms
  by (simp add: one_draw_def ex_cols_def data_cleaning_etapa1_def drop_colunas_por_loteria_def
      tratar_tipos_e_colunas_def remover_duplicatas_def concurso_keys_def apply_col_def upd_row_def
      drop_columns_def cell_def andThen_def colunas_drop_def py_str_def Let_def)

theorem cleaning_raises_on_bad_date_witness:
  "to_datetime lib0 (PStr ''not a date'') = Inl ValueError
   \<and> data_cleaning_etapa1 lib0 (one_draw (PStr ''not a date'')) = Inl ValueError"
proof -
  have a: "to_datetime lib0 (PStr ''not a date'') = Inl ValueError"
    by (simp add: lib0_def parse_date0_def)
  have l: "str_lower lib0 ''megasena'' = ''megasena''" by (simp add: lib0_def ascii_lower_def)
  have b: "dup_key lib0 (PInt 1) = Inr (PInt 1)" by (simp add: lib0_def)
  have c: "astype_Int64 lib0 (to_numeric lib0 (PInt 1)) = Inr (PInt 1)" by (simp add: lib0_def)
  from cleaning_raises_on_bad_date [OF a l b c] a show ?thesis by simp
qed

lemma mapE_pairs: "(\<forall>z \<in> set zs. g (snd z) = Inr (fst z)) \<Longrightarrow> mapE g (map snd zs) = Inr (map fst zs)"
  by (induction zs) auto

lemma list_all2_zipD:
  "list_all2 P xs ks \<Longrightarrow> z \<in> set (zip ks xs) \<Longrightarrow> P (snd z) (fst z)"
  by (induction arbitrary: z rule: list_all2_induct) auto

text \<open>
  Claim C7, as amended. Deduplication is idempotent: the table it returns has no two rows
  with the same draw-number key, its rows are rows of the input, and deduplicating it
  again returns it unchanged.
\<close>

theorem remover_duplicatas_idempotent:
  assumes "remover_duplicatas lib df = Inr d1"
  shows "remover_duplicatas lib d1 = Inr d1
    \<and> (\<exists>keys. concurso_keys lib d1 = Inr keys \<and> distinct keys)
    \<and> set (rows d1) \<subseteq> set (rows df)"
proof -
  from assms obtain keys where keys: "concurso_keys lib df = Inr keys"
    by (cases "concurso_keys lib df") (auto simp: remover_duplicatas_def)
  have "\<exists>keys'. concurso_keys lib d1 = Inr keys' \<and> distinct keys'"
  proof (cases "distinct keys")
    case True
    with assms keys have "d1 = df" by (simp add: remover_duplicatas_def)
    with keys True show ?thesis by auto
  next
    case False
    let ?zs = "drop_duplicates_last (zip keys (rows df))"
    let ?g = "\<lambda>(l, r). andThen (cell (columns df) r ''concurso'') (dup_key lib)"
    from False assms keys have d1: "d1 = df\<lparr>rows := map snd ?zs\<rparr>"
      by (simp add: remover_duplicatas_def)
    from keys have c: "''concurso'' \<in> set (columns df)" and m: "mapE ?g (rows df) = Inr keys"
      by (auto simp: concurso_keys_def split: if_splits)
    from mapE_Inr[OF m] have "\<forall>z \<in> set (zip keys (rows df)). ?g (snd z) = Inr (fst z)"
      by (auto dest: list_all2_zipD)
    with set_ddl[of "zip keys (rows df)"] have "\<forall>z \<in> set ?zs. ?g (snd z) = Inr (fst z)" by blast
    from mapE_pairs[OF this] have "mapE ?g (map snd ?zs) = Inr (map fst ?zs)" .
    with c d1 have "concurso_keys lib d1 = Inr (map fst ?zs)" by (simp add: concurso_keys_def)
    with distinct_ddl[of "zip keys (rows df)"] show ?thesis by blast
  qed
  then obtain keys' where k': "concurso_keys lib d1 = Inr keys'" "distinct keys'" by blast
  then have "remover_duplicatas lib d1 = Inr d1" by (simp add: remover_duplicatas_def)
  with k' remover_duplicatas_Inr[OF assms] show ?thesis by blast
qed

theorem remover_duplicatas_idempotent_witness:
  "remover_duplicatas lib0 ex_mixed_out = Inr (ex_mixed_out\<lparr>rows := [rows ex_mixed_out ! 1]\<rparr>)
   \<and> remover_duplicatas lib0 (ex_mixed_out\<lparr>rows := [rows ex_mixed_out ! 1]\<rparr>)
       = Inr (ex_mixed_out\<lparr>rows := [rows ex_mixed_out ! 1]\<rparr>)"
proof -
  have a: "remover_duplicatas lib0 ex_mixed_out = Inr (ex_mixed_out\<lparr>rows := [rows ex_mixed_out ! 1]\<rparr>)"
    by (simp add: ex_mixed_out_def remover_duplicatas_def concurso_keys_def cell_def andThen_def lib0_def)
  from remover_duplicatas_idempotent [OF a] a show ?thesis by blast
qed

text \<open>The claim as stated fails: deduplication compares the draw numbers before they are
  converted, so the text \<open>7\<close> and the integer 7 both survive the first run as the integer 7;
  the second run then drops the row labelled 0 and raises when it reads that label.\<close>

theorem cleaning_twice_counterexample:
  "data_cleaning_etapa1 lib0 ex_mixed = Inr ex_mixed_out
   \<and> data_cleaning_etapa1 lib0 ex_mixed_out = Inl KeyError"
  by (simp add: eval_defs ex_mixed_def ex_mixed_out_def)

subsection \<open>Ratio of estimated to accumulated prize\<close>




subsection \<open>List encoding\<close>

lemma ser_upd_row:
  "upd_row cols c (dumps_cell lib) r = Inr r' \<Longrightarrow> serialized lib (cell cols r c) (cell cols r' c)"
proof (induction cols arbitrary: r r')
  case Nil
  then show ?case by (simp add: cell_def upd_row_def serialized_def)
next
  case (Cons k ks)
  show ?case
  proof (cases r)
    case Nil
    with Cons.prems show ?thesis by (simp add: cell_def upd_row_def serialized_def)
  next
    case (Cons v vs)
    with Cons.prems obtain v' vs' where r': "r' = v' # vs'"
      and v': "(if k = c then dumps_cell lib v else Inr v) = Inr v'"
      and vs': "upd_row ks c (dumps_cell lib) vs = Inr vs'"
      by (auto simp: upd_row_def split: sum.splits)
    from Cons.IH[OF vs'] have ih: "serialized lib (cell ks vs c) (cell ks vs' c)" .
    show ?thesis
    proof (cases "k = c")
      case True
      with v' show ?thesis unfolding r' Cons
        by (auto simp: cell_def serialized_def dumps_cell_def split: sum.splits)
    next
      case False
      with ih show ?thesis unfolding r' Cons by (simp add: cell_def)
    qed
  qed
qed

lemma has_list_cong:
  assumes "list_all2 (\<lambda>x y. cell cols (snd y) c = cell cols (snd x) c) xs ys"
  shows "list_ex (\<lambda>(l, r). is_list (cell cols r c)) xs = list_ex (\<lambda>(l, r). is_list (cell cols r c)) ys"
  using assms by (induction rule: list_all2_induct) (auto simp: split_def)

lemma listas_cols_rel:
  assumes "listas_cols lib cs d = Inr out" "distinct cs"
  shows "columns out = columns d \<and>
    list_all2 (\<lambda>x y. fst y = fst x \<and>
        (\<forall>c. encoded lib (c \<in> set cs \<and> has_list d c) (cell (columns d) (snd x) c) (cell (columns d) (snd y) c)))
      (rows d) (rows out)"
  using assms
proof (induction cs arbitrary: d)
  case Nil
  then show ?case by (simp add: list_all2_same encoded_def)
next
  case (Cons col cs)
  from Cons.prems(2) have dc: "distinct cs" and nc: "col \<notin> set cs" by auto
  show ?case
  proof (cases "has_list d col")
    case False
    with Cons.prems have "listas_cols lib cs d = Inr out" by simp
    from Cons.IH[OF this dc] have c: "columns out = columns d" and
      l: "list_all2 (\<lambda>x y. fst y = fst x \<and>
        (\<forall>c. encoded lib (c \<in> set cs \<and> has_list d c) (cell (columns d) (snd x) c) (cell (columns d) (snd y) c)))
      (rows d) (rows out)" by auto
    have "list_all2 (\<lambda>x y. fst y = fst x \<and>
        (\<forall>c. encoded lib (c \<in> set (col # cs) \<and> has_list d c) (cell (columns d) (snd x) c) (cell (columns d) (snd y) c)))
      (rows d) (rows out)"
    proof (rule list_all2_mono[OF l])
      fix x y
      assume h: "fst y = fst x \<and>
        (\<forall>c. encoded lib (c \<in> set cs \<and> has_list d c) (cell (columns d) (snd x) c) (cell (columns d) (snd y) c))"
      have "encoded lib (c \<in> set (col # cs) \<and> has_list d c) (cell (columns d) (snd x) c) (cell (columns d) (snd y) c)" for c
      proof -
        have "(c \<in> set (col # cs) \<and> has_list d c) = (c \<in> set cs \<and> has_list d c)"
          using False by auto
        moreover from h have "encoded lib (c \<in> set cs \<and> has_list d c) (cell (columns d) (snd x) c) (cell (columns d) (snd y) c)"
          by blast
        ultimately show ?thesis by simp
      qed
      with h show "fst y = fst x \<and>
        (\<forall>c. encoded lib (c \<in> set (col # cs) \<and> has_list d c) (cell (columns d) (snd x) c) (cell (columns d) (snd y) c))"
        by simp
    qed
    with c show ?thesis by simp
  next
    case True
    with Cons.prems obtain d1 where d1: "apply_col col (dumps_cell lib) d = Inr d1"
      and rest: "listas_cols lib cs d1 = Inr out"
      by (auto simp: andThen_Inr)
    from apply_col_Inr[OF d1] have c1: "columns d1 = columns d" and
      l1: "list_all2 (\<lambda>x y. fst y = fst x \<and> upd_row (columns d) col (dumps_cell lib) (snd x) = Inr (snd y))
            (rows d) (rows d1)" by auto
    have l1': "list_all2 (\<lambda>x y. fst y = fst x \<and>
         serialized lib (cell (columns d) (snd x) col) (cell (columns d) (snd y) col) \<and>
         (\<forall>c. c \<noteq> col \<longrightarrow> cell (columns d) (snd y) c = cell (columns d) (snd x) c))
            (rows d) (rows d1)"
      by (rule list_all2_mono[OF l1]) (auto simp: cell_upd_row ser_upd_row)
    have hl: "has_list d1 c = has_list d c" if "c \<noteq> col" for c
    proof -
      have "list_all2 (\<lambda>x y. cell (columns d) (snd y) c = cell (columns d) (snd x) c) (rows d) (rows d1)"
        by (rule list_all2_mono[OF l1']) (use that in auto)
      from has_list_cong[OF this] show ?thesis by (simp add: has_list_def c1)
    qed
    from Cons.IH[OF rest dc] c1 have c: "columns out = columns d" and
      l: "list_all2 (\<lambda>x y. fst y = fst x \<and>
        (\<forall>c. encoded lib (c \<in> set cs \<and> has_list d1 c) (cell (columns d) (snd x) c) (cell (columns d) (snd y) c)))
      (rows d1) (rows out)" by auto
    have "list_all2 (\<lambda>x z. fst z = fst x \<and>
        (\<forall>c. encoded lib (c \<in> set (col # cs) \<and> has_list d c) (cell (columns d) (snd x) c) (cell (columns d) (snd z) c)))
      (rows d) (rows out)"
    proof (rule list_all2_trans[OF _ l1' l])
      fix x y z
      assume a: "fst y = fst x \<and>
         serialized lib (cell (columns d) (snd x) col) (cell (columns d) (snd y) col) \<and>
         (\<forall>c. c \<noteq> col \<longrightarrow> cell (columns d) (snd y) c = cell (columns d) (snd x) c)"
        and b: "fst z = fst y \<and>
        (\<forall>c. encoded lib (c \<in> set cs \<and> has_list d1 c) (cell (columns d) (snd y) c) (cell (columns d) (snd z) c))"
      have "encoded lib (c \<in> set (col # cs) \<and> has_list d c) (cell (columns d) (snd x) c) (cell (columns d) (snd z) c)" for c
      proof (cases "c = col")
        case True
        from b have "encoded lib (col \<in> set cs \<and> has_list d1 col) (cell (columns d) (snd y) col) (cell (columns d) (snd z) col)"
          by blast
        with nc have "cell (columns d) (snd z) col = cell (columns d) (snd y) col" by (simp add: encoded_def)
        with a True \<open>has_list d col\<close> show ?thesis by (simp add: encoded_def)
      next
        case False
        with a have e: "cell (columns d) (snd y) c = cell (columns d) (snd x) c" by simp
        from b have "encoded lib (c \<in> set cs \<and> has_list d1 c) (cell (columns d) (snd y) c) (cell (columns d) (snd z) c)" by blast
        with e hl[OF False] False show ?thesis by (simp add: encoded_def)
      qed
      with a b show "fst z = fst x \<and>
        (\<forall>c. encoded lib (c \<in> set (col # cs) \<and> has_list d c) (cell (columns d) (snd x) c) (cell (columns d) (snd z) c))" by simp
    qed
    with c show ?thesis by simp
  qed
qed

text \<open>
  Claim C10. When the list encoding returns a table for a table with distinct column
  names, the columns, the rows' labels and their order are unchanged; in a column where at
  least one value is a list every value, null or not, is replaced by the string
  \<open>json.dumps\<close> returns for it; in a column without a list every cell is unchanged.
\<close>

theorem listas_para_json_spec:
  assumes "listas_para_json lib df = Inr out" "distinct (columns df)"
  shows "columns out = columns df \<and>
    list_all2 (\<lambda>x y. fst y = fst x \<and>
       (\<forall>c \<in> set (columns df).
          (has_list df c \<longrightarrow> (\<forall>v. cell (columns df) (snd x) c = Inr v \<longrightarrow>
              (\<exists>s. json_dumps lib v = Inr s \<and> cell (columns df) (snd y) c = Inr (PStr s))))
        \<and> (\<not> has_list df c \<longrightarrow> cell (columns df) (snd y) c = cell (columns df) (snd x) c)))
      (rows df) (rows out)"
proof -
  from assms have "listas_cols lib (columns df) df = Inr out" by (simp add: listas_para_json_def)
  from listas_cols_rel[OF this assms(2)] have c: "columns out = columns df" and
    l: "list_all2 (\<lambda>x y. fst y = fst x \<and>
        (\<forall>c. encoded lib (c \<in> set (columns df) \<and> has_list df c)
               (cell (columns df) (snd x) c) (cell (columns df) (snd y) c)))
      (rows df) (rows out)" by auto
  have "list_all2 (\<lambda>x y. fst y = fst x \<and>
       (\<forall>c \<in> set (columns df).
          (has_list df c \<longrightarrow> (\<forall>v. cell (columns df) (snd x) c = Inr v \<longrightarrow>
              (\<exists>s. json_dumps lib v = Inr s \<and> cell (columns df) (snd y) c = Inr (PStr s))))
        \<and> (\<not> has_list df c \<longrightarrow> cell (columns df) (snd y) c = cell (columns df) (snd x) c)))
      (rows df) (rows out)"
  proof (rule list_all2_mono[OF l])
    fix x y
    assume h: "fst y = fst x \<and>
        (\<forall>c. encoded lib (c \<in> set (columns df) \<and> has_list df c)
               (cell (columns df) (snd x) c) (cell (columns df) (snd y) c))"
    have "(has_list df c \<longrightarrow> (\<forall>v. cell (columns df) (snd x) c = Inr v \<longrightarrow>
              (\<exists>s. json_dumps lib v = Inr s \<and> cell (columns df) (snd y) c = Inr (PStr s))))
        \<and> (\<not> has_list df c \<longrightarrow> cell (columns df) (snd y) c = cell (columns df) (snd x) c)"
      if "c \<in> set (columns df)" for c
    proof -
      from h have "encoded lib (c \<in> set (columns df) \<and> has_list df c)
               (cell (columns df) (snd x) c) (cell (columns df) (snd y) c)" by blast
      with that show ?thesis by (auto simp: encoded_def serialized_def)
    qed
    with h show "fst y = fst x \<and>
       (\<forall>c \<in> set (columns df).
          (has_list df c \<longrightarrow> (\<forall>v. cell (columns df) (snd x) c = Inr v \<longrightarrow>
              (\<exists>s. json_dumps lib v = Inr s \<and> cell (columns df) (snd y) c = Inr (PStr s))))
        \<and> (\<not> has_list df c \<longrightarrow> cell (columns df) (snd y) c = cell (columns df) (snd x) c))"
      by blast
  qed
  with c show ?thesis by simp
qed

text \<open>In the example the \<open>None\<close> and the NaN of the list-bearing column are stored as the
  texts \<open>null\<close> and \<open>NaN\<close>; the nulls of the other columns stay as they are.\<close>

theorem listas_para_json_spec_witness:
  "distinct (columns ex_json) \<and> listas_para_json lib0 ex_json = Inr ex_json_out
   \<and> has_list ex_json ''dezenas'' \<and> \<not> has_list ex_json ''premiacoes''
   \<and> columns ex_json_out = columns ex_json
   \<and> list_all2 (\<lambda>x y. fst y = fst x \<and>
       (\<forall>c \<in> set (columns ex_json).
          (has_list ex_json c \<longrightarrow> (\<forall>v. cell (columns ex_json) (snd x) c = Inr v \<longrightarrow>
              (\<exists>s. json_dumps lib0 v = Inr s \<and> cell (columns ex_json) (snd y) c = Inr (PStr s))))
        \<and> (\<not> has_list ex_json c \<longrightarrow> cell (columns ex_json) (snd y) c = cell (columns ex_json) (snd x) c)))
      (rows ex_json) (rows ex_json_out)"
proof -
  have d: "distinct (columns ex_json)" by (simp add: ex_json_def)
  have e: "listas_para_json lib0 ex_json = Inr ex_json_out"
    by (simp add: listas_para_json_def has_list_def is_list_def dumps_cell_def apply_col_def upd_row_def
      cell_def andThen_def lib0_def show_nat.simps ex_json_def ex_json_out_def)
  have h: "has_list ex_json ''dezenas''" "\<not> has_list ex_json ''premiacoes''"
    by (simp_all add: has_list_def is_list_def cell_def ex_json_def)
  note t = listas_para_json_spec [OF e d]
  show ?thesis
    by (rule conjI [OF d conjI [OF e conjI [OF h(1) conjI [OF h(2) t]]]])
qed

subsection \<open>Writing the relation\<close>





subsection \<open>Stages and the table of their caller\<close>

lemma implements_inplace: "implements (st_inplace g) g"
  unfolding implements_def
proof (intro allI impI)
  fix st :: store and r n assume h: "n \<le> r \<and> r < length st"
  show "keeps n st (fst (st_inplace g st r)) \<and> result_is g (st ! r) n (st_inplace g st r)"
  proof (cases "g (st ! r)")
    case (Inl e)
    then show ?thesis by (simp add: st_inplace_def keeps_def result_is_def)
  next
    case (Inr d)
    with h show ?thesis by (simp add: st_inplace_def keeps_def result_is_def)
  qed
qed

lemma implements_fresh: "implements (st_fresh g) g"
  unfolding implements_def
proof (intro allI impI)
  fix st :: store and r n assume h: "n \<le> r \<and> r < length st"
  show "keeps n st (fst (st_fresh g st r)) \<and> result_is g (st ! r) n (st_fresh g st r)"
  proof (cases "g (st ! r)")
    case (Inl e)
    then show ?thesis by (simp add: st_fresh_def keeps_def result_is_def)
  next
    case (Inr d)
    with h show ?thesis by (simp add: st_fresh_def keeps_def result_is_def nth_append)
  qed
qed

lemma implements_then:
  assumes F: "implements F f" and G: "implements G g"
  shows "implements (\<lambda>st r. st_then (F st r) G) (\<lambda>d. andThen (f d) g)"
  unfolding implements_def
proof (intro allI impI)
  fix st :: store and r n assume h: "n \<le> r \<and> r < length st"
  from F h have k1: "keeps n st (fst (F st r))" and r1: "result_is f (st ! r) n (F st r)"
    unfolding implements_def by blast+
  obtain st1 res1 where o: "F st r = (st1, res1)" by (cases "F st r")
  show "keeps n st (fst (st_then (F st r) G)) \<and>
        result_is (\<lambda>d. andThen (f d) g) (st ! r) n (st_then (F st r) G)"
  proof (cases res1)
    case (Inl e)
    with o k1 r1 show ?thesis by (simp add: st_then_def result_is_def andThen_def)
  next
    case (Inr r1')
    with o r1 have a: "n \<le> r1'" "r1' < length st1" "f (st ! r) = Inr (st1 ! r1')"
      by (simp_all add: result_is_def)
    from G a have k2: "keeps n st1 (fst (G st1 r1'))" and r2: "result_is g (st1 ! r1') n (G st1 r1')"
      unfolding implements_def by blast+
    from k1 k2 o have "keeps n st (fst (G st1 r1'))" by (auto simp: keeps_def)
    moreover from r2 a have "result_is (\<lambda>d. andThen (f d) g) (st ! r) n (G st1 r1')"
      by (auto simp: result_is_def andThen_def split: sum.splits)
    ultimately show ?thesis using o Inr by (simp add: st_then_def)
  qed
qed

lemma implements_cong:
  assumes "implements F f" "\<And>st r. F' st r = F st r" "\<And>d. f' d = f d"
  shows "implements F' f'"
proof -
  from assms(2) have "F' = F" by (intro ext)
  moreover from assms(3) have "f' = f" by (intro ext)
  ultimately show ?thesis using assms(1) by simp
qed

lemma implements_id: "implements (\<lambda>st r. (st, Inr r)) Inr"
  by (simp add: implements_def keeps_def result_is_def)

lemma implements_if:
  assumes "implements F f" "implements G g"
  shows "implements (\<lambda>st r. if P (st ! r) then F st r else G st r) (\<lambda>d. if P d then f d else g d)"
  using assms unfolding implements_def by (auto simp: result_is_def)

lemma implements_apply_present: "implements (apply_present_st f cs) (apply_present f cs)"
proof (induction cs)
  case Nil
  show ?case by (rule implements_cong[OF implements_id]) simp_all
next
  case (Cons c cs)
  have "implements (\<lambda>st r. if c \<in> set (columns (st ! r))
          then st_then (st_inplace (apply_col c f) st r) (apply_present_st f cs)
          else apply_present_st f cs st r)
        (\<lambda>d. if c \<in> set (columns d) then andThen (apply_col c f d) (apply_present f cs)
             else apply_present f cs d)"
    by (rule implements_if[where P = "\<lambda>d. c \<in> set (columns d)", OF implements_then[OF implements_inplace Cons.IH] Cons.IH])
  then show ?case by (rule implements_cong) simp_all
qed

lemma implements_remover: "implements (remover_duplicatas_st lib) (remover_duplicatas lib)"
  unfolding implements_def
proof (intro allI impI)
  fix st :: store and r n assume h: "n \<le> r \<and> r < length st"
  show "keeps n st (fst (remover_duplicatas_st lib st r)) \<and>
        result_is (remover_duplicatas lib) (st ! r) n (remover_duplicatas_st lib st r)"
  proof (cases "concurso_keys lib (st ! r)")
    case (Inl e)
    then show ?thesis
      by (simp add: remover_duplicatas_st_def remover_duplicatas_def keeps_def result_is_def)
  next
    case (Inr keys)
    show ?thesis
    proof (cases "distinct keys")
      case True
      with Inr h show ?thesis
        by (simp add: remover_duplicatas_st_def remover_duplicatas_def keeps_def result_is_def)
    next
      case False
      with Inr have "remover_duplicatas_st lib st r = st_fresh (remover_duplicatas lib) st r"
        by (simp add: remover_duplicatas_st_def)
      with implements_fresh[of "remover_duplicatas lib"] h show ?thesis
        unfolding implements_def by simp
    qed
  qed
qed

lemma implements_tratar: "implements (tratar_tipos_e_colunas_st lib) (tratar_tipos_e_colunas lib)"
  unfolding tratar_tipos_e_colunas_st_def tratar_tipos_e_colunas_def
  by (intro implements_then implements_remover implements_inplace implements_apply_present)

lemma implements_normalizacao:
  "implements (aplicar_normalizacao_listas_st lib) (aplicar_normalizacao_listas lib)"
  unfolding aplicar_normalizacao_listas_st_def aplicar_normalizacao_listas_def
  by (rule implements_apply_present)

lemma implements_cleaning_rest:
  "implements
    (\<lambda>st r. st_then (st_fresh (drop_colunas_por_loteria lib) st r) (\<lambda>st r.
      st_then (tratar_tipos_e_colunas_st lib st r) (\<lambda>st r.
      st_then (aplicar_normalizacao_listas_st lib st r) (\<lambda>st r.
      st_fresh (validar_dezenas lib) st r))))
    (data_cleaning_etapa1 lib)"
  unfolding data_cleaning_etapa1_def
  by (intro implements_then implements_fresh implements_tratar implements_normalizacao)

lemma implements_listas_cols: "implements (listas_cols_st lib cs) (listas_cols lib cs)"
proof (induction cs)
  case Nil
  show ?case by (rule implements_cong[OF implements_id]) simp_all
next
  case (Cons c cs)
  have "implements (\<lambda>st r. if has_list (st ! r) c
          then st_then (st_inplace (apply_col c (dumps_cell lib)) st r) (listas_cols_st lib cs)
          else listas_cols_st lib cs st r)
        (\<lambda>d. if has_list d c then andThen (apply_col c (dumps_cell lib) d) (listas_cols lib cs)
             else listas_cols lib cs d)"
    by (rule implements_if[where P = "\<lambda>d. has_list d c", OF implements_then[OF implements_inplace Cons.IH] Cons.IH])
  then show ?case by (rule implements_cong) simp_all
qed

lemma implements_listas_rest:
  "implements (\<lambda>st r. listas_cols_st lib (columns (st ! r)) st r) (listas_para_json lib)"
  unfolding implements_def listas_para_json_def
proof (intro allI impI)
  fix st :: store and r n assume h: "n \<le> r \<and> r < length st"
  from implements_listas_cols [of lib "columns (st ! r)", unfolded implements_def, rule_format, OF h]
  show "keeps n st (fst (listas_cols_st lib (columns (st ! r)) st r)) \<and>
        result_is (\<lambda>df. listas_cols lib (columns df) df) (st ! r) n
          (listas_cols_st lib (columns (st ! r)) st r)"
    by (simp add: result_is_def)
qed

lemma copy_then:
  assumes "implements Rest f" "r < length st"
  shows "(\<forall>i<length st. fst (st_then (st_fresh Inr st r) Rest) ! i = st ! i)
    \<and> (case snd (st_then (st_fresh Inr st r) Rest) of
          Inl e \<Rightarrow> f (st ! r) = Inl e
        | Inr r' \<Rightarrow> length st \<le> r' \<and> f (st ! r) = Inr (fst (st_then (st_fresh Inr st r) Rest) ! r'))"
proof -
  let ?st1 = "st @ [st ! r]"
  have e: "st_then (st_fresh Inr st r) Rest = Rest ?st1 (length st)"
    by (simp add: st_then_def st_fresh_def)
  have "length st \<le> length st \<and> length st < length ?st1" by simp
  from assms(1) [unfolded implements_def, rule_format, OF this]
  have "keeps (length st) ?st1 (fst (Rest ?st1 (length st)))"
    and "result_is f (?st1 ! length st) (length st) (Rest ?st1 (length st))"
    by simp_all
  then show ?thesis unfolding e
    by (auto simp: keeps_def result_is_def nth_append split: sum.splits)
qed

lemma writes_into_inplace: "writes_into (st_inplace g) g"
  unfolding writes_into_def
proof (intro allI impI)
  fix st :: store and r assume "r < length st"
  then show "length (fst (st_inplace g st r)) = length st \<and>
       (\<forall>i. i \<noteq> r \<longrightarrow> fst (st_inplace g st r) ! i = st ! i) \<and>
       (case snd (st_inplace g st r) of
          Inl e \<Rightarrow> g (st ! r) = Inl e
        | Inr r' \<Rightarrow> r' = r \<and> g (st ! r) = Inr (fst (st_inplace g st r) ! r))"
    by (cases "g (st ! r)") (simp_all add: st_inplace_def)
qed

lemma writes_into_then:
  assumes F: "writes_into F f" and G: "writes_into G g"
  shows "writes_into (\<lambda>st r. st_then (F st r) G) (\<lambda>d. andThen (f d) g)"
  unfolding writes_into_def
proof (intro allI impI)
  fix st :: store and r assume h: "r < length st"
  obtain st1 res1 where o: "F st r = (st1, res1)" by (cases "F st r")
  from F [unfolded writes_into_def, rule_format, OF h] o
  have l1: "length st1 = length st" and k1: "\<forall>i. i \<noteq> r \<longrightarrow> st1 ! i = st ! i"
    and r1: "case res1 of Inl e \<Rightarrow> f (st ! r) = Inl e | Inr r' \<Rightarrow> r' = r \<and> f (st ! r) = Inr (st1 ! r)"
    by (auto split: sum.splits)
  show "length (fst (st_then (F st r) G)) = length st \<and>
       (\<forall>i. i \<noteq> r \<longrightarrow> fst (st_then (F st r) G) ! i = st ! i) \<and>
       (case snd (st_then (F st r) G) of
          Inl e \<Rightarrow> andThen (f (st ! r)) g = Inl e
        | Inr r' \<Rightarrow> r' = r \<and> andThen (f (st ! r)) g = Inr (fst (st_then (F st r) G) ! r))"
  proof (cases res1)
    case (Inl e)
    with o l1 k1 r1 show ?thesis by (simp add: st_then_def andThen_def)
  next
    case (Inr r1')
    with r1 have a: "r1' = r" "f (st ! r) = Inr (st1 ! r)" by simp_all
    from h l1 have h1: "r < length st1" by simp
    from G [unfolded writes_into_def, rule_format, OF h1]
    have l2: "length (fst (G st1 r)) = length st1"
      and k2: "\<forall>i. i \<noteq> r \<longrightarrow> fst (G st1 r) ! i = st1 ! i"
      and r2: "case snd (G st1 r) of Inl e \<Rightarrow> g (st1 ! r) = Inl e
               | Inr r' \<Rightarrow> r' = r \<and> g (st1 ! r) = Inr (fst (G st1 r) ! r)"
      by (auto split: sum.splits)
    have e: "st_then (F st r) G = G st1 r" using o Inr a by (simp add: st_then_def)
    show ?thesis unfolding e using l1 l2 k1 k2 r2 a
      by (auto simp: andThen_def split: sum.splits)
  qed
qed

lemma writes_into_criar:
  "writes_into (criar_features_datas_st lib) (criar_features_datas lib)"
  unfolding criar_features_datas_st_def criar_features_datas_def
  by (intro writes_into_then writes_into_inplace)

lemma columns_set_column: "set (columns (set_column dst vals df)) = insert dst (set (columns df))"
  by (auto simp: set_column_def)

lemma columns_dt_assign:
  "dt_assign lib src fld dst df = Inr df' \<Longrightarrow> set (columns df') = insert dst (set (columns df))"
  by (auto simp: dt_assign_def andThen_Inr columns_set_column split: if_splits)

lemma columns_criar:
  assumes "criar_features_datas lib df = Inr df'"
  shows "set (columns df') = set calendar_cols \<union> set (columns df)"
proof -
  from assms obtain d1 d2 d3 d4 d5 d6 d7 where
    s1: "dt_assign lib ''data'' ''day'' ''data_dia'' df = Inr d1" and
    s2: "dt_assign lib ''data'' ''month'' ''data_mes'' d1 = Inr d2" and
    s3: "dt_assign lib ''data'' ''year'' ''data_ano'' d2 = Inr d3" and
    s4: "dt_assign lib ''data'' ''week'' ''semana_ano_concurso'' d3 = Inr d4" and
    s5: "dt_assign lib ''data'' ''weekday'' ''dia_semana_concurso'' d4 = Inr d5" and
    s6: "dt_assign lib ''proximoConcurso'' ''day'' ''proximoConcurso_dia'' d5 = Inr d6" and
    s7: "dt_assign lib ''proximoConcurso'' ''month'' ''proximoConcurso_mes'' d6 = Inr d7" and
    s8: "dt_assign lib ''proximoConcurso'' ''year'' ''proximoConcurso_ano'' d7 = Inr df'"
    unfolding criar_features_datas_def andThen_Inr by blast
  note c = columns_dt_assign [OF s1] columns_dt_assign [OF s2] columns_dt_assign [OF s3]
    columns_dt_assign [OF s4] columns_dt_assign [OF s5] columns_dt_assign [OF s6]
    columns_dt_assign [OF s7] columns_dt_assign [OF s8]
  show ?thesis unfolding c calendar_cols_def by auto
qed

text \<open>
  Claim C9, as amended. The cleaning stage and the list encoding of the persistence stage
  work on a copy: every table that existed before the call, the caller's included, is
  unchanged afterwards, whether the call returns or raises, and the table returned is a new
  one holding the stage's result. The feature stage does not copy: its first step,
  \<open>criar_features_datas\<close>, assigns the calendar columns into the very table it is given and
  returns that table, so the caller's table has the new columns afterwards; no other
  table is touched.
\<close>

theorem stages_and_the_callers_table:
  assumes "r < length st"
  shows "(\<forall>i<length st. fst (data_cleaning_etapa1_st lib st r) ! i = st ! i)
    \<and> (case snd (data_cleaning_etapa1_st lib st r) of
          Inl e \<Rightarrow> data_cleaning_etapa1 lib (st ! r) = Inl e
        | Inr r' \<Rightarrow> length st \<le> r' \<and>
            data_cleaning_etapa1 lib (st ! r) = Inr (fst (data_cleaning_etapa1_st lib st r) ! r'))
    \<and> (\<forall>i<length st. fst (listas_para_json_st lib st r) ! i = st ! i)
    \<and> (case snd (listas_para_json_st lib st r) of
          Inl e \<Rightarrow> listas_para_json lib (st ! r) = Inl e
        | Inr r' \<Rightarrow> length st \<le> r' \<and>
            listas_para_json lib (st ! r) = Inr (fst (listas_para_json_st lib st r) ! r'))
    \<and> (\<forall>i. i \<noteq> r \<longrightarrow> fst (criar_features_datas_st lib st r) ! i = st ! i)
    \<and> (case snd (criar_features_datas_st lib st r) of
          Inl e \<Rightarrow> criar_features_datas lib (st ! r) = Inl e
        | Inr r' \<Rightarrow> r' = r \<and>
            criar_features_datas lib (st ! r) = Inr (fst (criar_features_datas_st lib st r) ! r) \<and>
            set (columns (fst (criar_features_datas_st lib st r) ! r))
              = set calendar_cols \<union> set (columns (st ! r)))"
proof -
  have c: "data_cleaning_etapa1_st lib st r =
      st_then (st_fresh Inr st r) (\<lambda>st r. st_then (st_fresh (drop_colunas_por_loteria lib) st r) (\<lambda>st r.
      st_then (tratar_tipos_e_colunas_st lib st r) (\<lambda>st r.
      st_then (aplicar_normalizacao_listas_st lib st r) (\<lambda>st r.
      st_fresh (validar_dezenas lib) st r))))"
    by (simp add: data_cleaning_etapa1_st_def)
  note 1 = copy_then [OF implements_cleaning_rest assms, of lib, folded c]
  have j: "listas_para_json_st lib st r =
      st_then (st_fresh Inr st r) (\<lambda>st r. listas_cols_st lib (columns (st ! r)) st r)"
    by (simp add: listas_para_json_st_def)
  note 2 = copy_then [OF implements_listas_rest assms, of lib, folded j]
  note w = writes_into_criar [of lib, unfolded writes_into_def, rule_format, OF assms]
  from w have 3: "\<forall>i. i \<noteq> r \<longrightarrow> fst (criar_features_datas_st lib st r) ! i = st ! i" by blast
  have 4: "case snd (criar_features_datas_st lib st r) of
          Inl e \<Rightarrow> criar_features_datas lib (st ! r) = Inl e
        | Inr r' \<Rightarrow> r' = r \<and>
            criar_features_datas lib (st ! r) = Inr (fst (criar_features_datas_st lib st r) ! r) \<and>
            set (columns (fst (criar_features_datas_st lib st r) ! r))
              = set calendar_cols \<union> set (columns (st ! r))"
  proof (cases "snd (criar_features_datas_st lib st r)")
    case (Inl e)
    with w show ?thesis by simp
  next
    case (Inr r')
    with w have a: "r' = r" "criar_features_datas lib (st ! r) = Inr (fst (criar_features_datas_st lib st r) ! r)"
      by simp_all
    from columns_criar [OF a(2)] a Inr show ?thesis by simp
  qed
  from 1 2 3 4 show ?thesis by (intro conjI) blast+
qed

lemma criar_example: "criar_features_datas_st lib0 [ex_out] 0 = ([ex_feat], Inr 0)"
  by code_simp

text \<open>The claim as stated fails for the feature stage: \<open>feature_engineering_etapa2\<close> hands
  the caller's table to \<open>criar_features_datas\<close> as its first statement; here the store holds
  one table, the cleaned example, and after the call that same table has eight more
  columns.\<close>

theorem feature_stage_mutates_counterexample:
  "criar_features_datas_st lib0 [ex_out] 0 = ([ex_feat], Inr 0)
   \<and> ex_feat \<noteq> ex_out
   \<and> columns ex_feat = columns ex_out @ calendar_cols"
proof -
  have "columns ex_feat = columns ex_out @ calendar_cols"
    by (simp add: ex_feat_def ex_out_def calendar_cols_def)
  moreover from this have "ex_feat \<noteq> ex_out" by (auto simp: calendar_cols_def)
  ultimately show ?thesis using criar_example by simp
qed

theorem stages_and_the_callers_table_witness:
  "(0::nat) < length [ex_out]
   \<and> fst (data_cleaning_etapa1_st lib0 [ex_out] 0) ! 0 = ex_out
   \<and> fst (listas_para_json_st lib0 [ex_out] 0) ! 0 = ex_out
   \<and> snd (criar_features_datas_st lib0 [ex_out] 0) = Inr 0
   \<and> set (columns (fst (criar_features_datas_st lib0 [ex_out] 0) ! 0))
       = set calendar_cols \<union> set (columns ex_out)"
proof -
  have a: "(0::nat) < length [ex_out]" by simp
  note t = stages_and_the_callers_table [OF a, of lib0]
  from t have 1: "fst (data_cleaning_etapa1_st lib0 [ex_out] 0) ! 0 = ex_out" by simp
  from t have 2: "fst (listas_para_json_st lib0 [ex_out] 0) ! 0 = ex_out" by simp
  have 3: "snd (criar_features_datas_st lib0 [ex_out] 0) = Inr 0"
    by (simp add: criar_example)
  from t 3 have 4: "set (columns (fst (criar_features_datas_st lib0 [ex_out] 0) ! 0))
       = set calendar_cols \<union> set (columns ex_out)" by simp
  from a 1 2 3 4 show ?thesis by (intro conjI)
qed

subsection \<open>Prize-tier expansion\<close>

lemma np_div_zero_divisor:
  "np_div a (Fin 0) = NaN \<or> np_div a (Fin 0) = PosInf \<or> np_div a (Fin 0) = NegInf"
  by (cases a) (auto simp: np_div_def)

lemma series_div_numeric:
  "\<not> fst x \<Longrightarrow> \<not> fst y \<Longrightarrow>
   series_div x y = Inr (False, map (\<lambda>(a, b). PFloat (np_div (float_of a) (float_of b))) (zip (snd x) (snd y)))"
  by (simp add: series_div_def)

lemma expansao_numeric_example:
  "aplicar_expansao_premiacoes lib0 (ex_tiers (PInt 0) (PInt 5)) =
    Inr \<lparr>columns = [''loteria'', ''concurso'', ''premiacoes'', ''ganhadores_faixa_1'',
                     ''valor_faixa_1'', ''total_ganhadores'', ''total_pago_premios'',
                     ''media_premio_real''],
         rows = [(0, [PStr ''megasena'', PInt 1,
                      PList [PDict [(PStr ''faixa'', PInt 1), (PStr ''ganhadores'', PInt 0),
                                    (PStr ''valorPremio'', PInt 5)]],
                      PInt 0, PInt 5, PFloat (Fin 0), PFloat (Fin 5), PFloat PosInf])]\<rparr>"
  by code_simp

text \<open>
  Claim C6 fails on the code. In a batch whose only prize tier has nulls for the winner
  count and the prize, the two tier columns hold \<open>None\<close> only and stay columns of Python
  objects; both row totals are the Python integer 0 and the division of the two columns
  raises \<open>ZeroDivisionError\<close>. With numbers in the tier columns (example above) the same
  division gives an infinity or NaN and does not raise.
\<close>

theorem media_premio_real_raises:
  "aplicar_expansao_premiacoes lib0 (ex_tiers PNone PNone) = Inl ZeroDivisionError"
  by code_simp

end
